theory Spec2Isabelle
  imports Complex_Main
begin

text \<open>
  The OAuth relay and AI proxy of \<open>src/server.js\<close> (its first version, lines 1 to 333:
  the three AI endpoints, \<open>/oauth/start\<close>, the two token exchange helpers, \<open>finish\<close>
  and the two callbacks), and the later \<open>/generate-playlist-vibe\<close> of
  \<open>src/unnamed/part_000\<close>. What the handlers get from outside is a parameter of the
  model: the environment variables, the random state, the answer of the token endpoint,
  the answer of the AI model, what \<open>express.json()\<close> makes of the request body, and the
  library functions \<open>new URL(s).origin\<close>, \<open>Buffer.from(s).toString("base64")\<close>,
  \<open>JSON.parse\<close>, \<open>JSON.stringify\<close> and the string form of a number.
\<close>

section \<open>JavaScript values seen by the relay\<close>

text \<open>
  Strings are \<^typ>\<open>string\<close>: a JavaScript string whose code units are all below 256.
  In that range the only line terminators are LF and CR.

  \<open>req.query\<close> is produced by Express 4's extended query parser (\<open>qs\<close> with
  \<open>allowPrototypes\<close>): every value is a string, an array of values or an object of
  values, and an object may have any key, \<open>toString\<close> too (\<open>?redirect[toString]=x\<close>); a
  parameter that does not occur is \<open>undefined\<close> (\<open>None\<close> below).
\<close>

datatype qval = QStr string | QArr "qval list" | QObj "(string \<times> qval) list"

type_synonym query = "string \<Rightarrow> qval option"

text \<open>Values decoded from JSON (\<open>r.json()\<close>, \<open>req.body\<close>), and \<open>undefined\<close>. An object
  lists each of its keys once.\<close>

datatype jsval =
    JUndefined
  | JNull
  | JBool bool
  | JNum rat
  | JStr string
  | JArr "jsval list"
  | JObj "(string \<times> jsval) list"

text \<open>\<open>!x\<close> is \<open>\<not> truthy x\<close>.\<close>

fun truthy_q :: "qval option \<Rightarrow> bool" where
  "truthy_q None = False"
| "truthy_q (Some (QStr s)) = (s \<noteq> [])"
| "truthy_q (Some (QArr _)) = True"
| "truthy_q (Some (QObj _)) = True"

fun truthy :: "jsval \<Rightarrow> bool" where
  "truthy JUndefined = False"
| "truthy JNull = False"
| "truthy (JBool b) = b"
| "truthy (JNum n) = (n \<noteq> 0)"
| "truthy (JStr s) = (s \<noteq> [])"
| "truthy (JArr _) = True"
| "truthy (JObj _) = True"

text \<open>\<open>a || b\<close>\<close>

definition js_or :: "jsval \<Rightarrow> jsval \<Rightarrow> jsval" where
  "js_or a b = (if truthy a then a else b)"

text \<open>\<open>Array.prototype.join\<close> on strings.\<close>

fun join :: "string \<Rightarrow> string list \<Rightarrow> string" where
  "join sep [] = []"
| "join sep [x] = x"
| "join sep (x # y # ys) = x @ sep @ join sep (y # ys)"

text \<open>
  String coercion of a query value, as \<open>RegExp.prototype.test\<close>, \<open>new URL\<close> and
  \<open>new URLSearchParams\<close> apply it. An array is its elements joined by commas. An object
  is \<open>[object Object]\<close>, unless it has a key \<open>toString\<close> of its own: the value under it
  is no function, \<open>valueOf\<close> gives back the object, and the coercion raises a TypeError
  (\<open>None\<close>); so it does for an array that holds such an object.
\<close>

fun qval_toString :: "qval \<Rightarrow> string option" where
  "qval_toString (QStr s) = Some s"
| "qval_toString (QArr xs) = map_option (join '','') (those (map qval_toString xs))"
| "qval_toString (QObj kvs) =
     (if ''toString'' \<in> set (map fst kvs) then None else Some ''[object Object]'')"

text \<open>The same for a parameter that may be absent: \<open>undefined\<close> coerces to
  \<open>undefined\<close>.\<close>

fun query_toString :: "qval option \<Rightarrow> string option" where
  "query_toString None = Some ''undefined''"
| "query_toString (Some v) = qval_toString v"

text \<open>A query value used as a JavaScript value (\<open>{ error }\<close>).\<close>

fun jsval_of_qval :: "qval \<Rightarrow> jsval" where
  "jsval_of_qval (QStr s) = JStr s"
| "jsval_of_qval (QArr xs) = JArr (map jsval_of_qval xs)"
| "jsval_of_qval (QObj kvs) = JObj (map (\<lambda>(k, v). (k, jsval_of_qval v)) kvs)"

fun jsval_of_query :: "qval option \<Rightarrow> jsval" where
  "jsval_of_query None = JUndefined"
| "jsval_of_query (Some q) = jsval_of_qval q"

text \<open>
  Property read \<open>x.name\<close> for the names the relay reads (none of them is a property of
  a string, number, boolean or array): \<open>None\<close> is the TypeError raised on \<open>null\<close> and
  \<open>undefined\<close>.
\<close>

fun get_prop :: "jsval \<Rightarrow> string \<Rightarrow> jsval option" where
  "get_prop JUndefined name = None"
| "get_prop JNull name = None"
| "get_prop (JObj kvs) name = (case map_of kvs name of None \<Rightarrow> Some JUndefined | Some v \<Rightarrow> Some v)"
| "get_prop v name = Some JUndefined"

text \<open>
  String coercion of a value inside a template literal (\<open>`${x}`\<close>). \<open>stringable x\<close>
  says that it does not raise: an object with a key \<open>toString\<close> of its own raises a
  TypeError, and so does an array that holds one. \<open>js_toString num x\<close> is the string of
  a value that is stringable; \<open>num\<close> stands for the string form of a number.
\<close>

fun stringable :: "jsval \<Rightarrow> bool" where
  "stringable (JObj kvs) = (''toString'' \<notin> set (map fst kvs))"
| "stringable (JArr xs) = (\<forall>x \<in> set xs. stringable x)"
| "stringable v = True"

fun js_toString :: "(rat \<Rightarrow> string) \<Rightarrow> jsval \<Rightarrow> string" where
  "js_toString num JUndefined = ''undefined''"
| "js_toString num JNull = ''null''"
| "js_toString num (JBool b) = (if b then ''true'' else ''false'')"
| "js_toString num (JNum n) = num n"
| "js_toString num (JStr s) = s"
| "js_toString num (JArr xs) =
     join '','' (map (\<lambda>x. if x = JNull \<or> x = JUndefined then [] else js_toString num x) xs)"
| "js_toString num (JObj kvs) = ''[object Object]''"

text \<open>An environment variable that is not set reads \<open>undefined\<close>; coerced to a string
  (by \<open>+\<close>, \<open>searchParams.set\<close>, \<open>new URLSearchParams\<close>) it is \<open>undefined\<close>.\<close>

fun js_str :: "string option \<Rightarrow> string" where
  "js_str None = ''undefined''"
| "js_str (Some s) = s"

section \<open>Configuration\<close>

type_synonym env = "string \<Rightarrow> string option"

record provider_cfg =
  auth :: string
  token :: string
  clientId :: "string option"
  clientSecret :: "string option"
  redirectUri :: "string option"
  scope :: string

definition cfg_spotify :: "env \<Rightarrow> provider_cfg" where
  "cfg_spotify env =
     \<lparr> auth = ''https://accounts.spotify.com/authorize'',
       token = ''https://accounts.spotify.com/api/token'',
       clientId = env ''SPOTIFY_CLIENT_ID'',
       clientSecret = env ''SPOTIFY_CLIENT_SECRET'',
       redirectUri = env ''SPOTIFY_REDIRECT_URI'',
       scope = ''playlist-modify-public playlist-modify-private ugc-image-upload'' \<rparr>"

definition cfg_google :: "env \<Rightarrow> provider_cfg" where
  "cfg_google env =
     \<lparr> auth = ''https://accounts.google.com/o/oauth2/v2/auth'',
       token = ''https://oauth2.googleapis.com/token'',
       clientId = env ''GOOGLE_CLIENT_ID'',
       clientSecret = env ''GOOGLE_CLIENT_SECRET'',
       redirectUri = env ''GOOGLE_REDIRECT_URI'',
       scope = ''https://www.googleapis.com/auth/youtube'' \<rparr>"

section \<open>Transaction store\<close>

text \<open>\<open>const txns = new Map()\<close>: keys are the state strings \<open>/oauth/start\<close> stored,
  each value is the object \<open>{ redirect }\<close>.\<close>

record txn =
  redirect :: "qval option"

type_synonym txns = "string \<Rightarrow> txn option"

text \<open>
  \<open>txns.get(state)\<close> and \<open>txns.delete(state)\<close> with the \<open>state\<close> of a callback's query.
  A Map compares keys by identity: an array or an object is never equal to a stored string.
\<close>

fun txns_get :: "txns \<Rightarrow> qval option \<Rightarrow> txn option" where
  "txns_get m (Some (QStr s)) = m s"
| "txns_get m (Some (QArr _)) = None"
| "txns_get m (Some (QObj _)) = None"
| "txns_get m None = None"

fun txns_delete :: "txns \<Rightarrow> qval option \<Rightarrow> txns" where
  "txns_delete m (Some (QStr s)) = m(s := None)"
| "txns_delete m (Some (QArr _)) = m"
| "txns_delete m (Some (QObj _)) = m"
| "txns_delete m None = m"

section \<open>Responses\<close>

text \<open>A \<open>URL\<close> object built from an endpoint without query: the endpoint and its
  \<open>searchParams\<close>, in order.\<close>

record URL =
  endpoint :: string
  searchParams :: "(string \<times> string) list"

text \<open>\<open>URLSearchParams.set\<close>: the first pair of that name takes the value and the
  others go; with no such pair the new one is appended.\<close>

fun searchParams_set :: "string \<Rightarrow> string \<Rightarrow> (string \<times> string) list \<Rightarrow> (string \<times> string) list" where
  "searchParams_set k v [] = [(k, v)]"
| "searchParams_set k v ((k', v') # ps) =
     (if k' = k then (k, v) # filter (\<lambda>p. fst p \<noteq> k) ps
      else (k', v') # searchParams_set k v ps)"

definition set_param :: "string \<Rightarrow> string \<Rightarrow> URL \<Rightarrow> URL" where
  "set_param k v u = u\<lparr> searchParams := searchParams_set k v (searchParams u) \<rparr>"

definition new_URL :: "string \<Rightarrow> URL" where
  "new_URL e = \<lparr> endpoint = e, searchParams = [] \<rparr>"

text \<open>The object \<open>result\<close> of \<open>finish\<close>: \<open>{provider, error}\<close> or \<open>{provider, token}\<close>.\<close>

datatype result = ErrorResult string jsval | TokenResult string jsval

text \<open>The sentence of the relay page: \<open>Authentication failed: ${result.error}\<close> or
  \<open>Authentication successful!\<close>.\<close>

datatype message = AuthenticationFailed jsval | AuthenticationSuccessful

datatype response =
    Send nat string
    \<comment> \<open>\<open>res.status(n).send(text)\<close>\<close>
  | Redirect URL
    \<comment> \<open>\<open>res.redirect(u.toString())\<close>, status 302\<close>
  | InvalidState
    \<comment> \<open>\<open>res.status(400).send(...)\<close> with the fixed page "Invalid state parameter"\<close>
  | RelayPage result string message
    \<comment> \<open>\<open>res.send(page)\<close>, status 200: the page built from \<open>result\<close>, \<open>targetOrigin\<close>
       and \<open>message\<close>; its text is \<open>sent_text\<close> below\<close>
  | SendJson nat jsval
    \<comment> \<open>\<open>res.status(n).send(object)\<close> or \<open>res.json(object)\<close>\<close>
  | SendText string
    \<comment> \<open>status 200, \<open>Content-Type: application/json\<close>, the text as it is\<close>
  | ExpressError nat
    \<comment> \<open>an error reaches Express (a middleware passes it on, or a handler that is not
       \<open>async\<close> throws): its error handler answers with the error's status, 500 for a
       thrown exception\<close>
  | Throws
    \<comment> \<open>an exception leaves an \<open>async\<close> handler: the rejection is not handled, no
       response is written, and Node (15 and later) ends the process, and the store
       with it\<close>

fun status :: "response \<Rightarrow> nat option" where
  "status (Send n _) = Some n"
| "status (Redirect _) = Some 302"
| "status InvalidState = Some 400"
| "status (RelayPage _ _ _) = Some 200"
| "status (SendJson n _) = Some n"
| "status (SendText _) = Some 200"
| "status (ExpressError n) = Some n"
| "status Throws = None"

text \<open>
  The text of the pages, as the template literals of \<open>finish\<close> build it. \<open>json\<close> is
  \<open>JSON.stringify(result)\<close>. Nothing is escaped: \<open>json\<close>, \<open>targetOrigin\<close> and the message
  go into the text as they are.
\<close>

definition invalid_state_page :: string where
  "invalid_state_page = join [CHR 0x0A]
     [[],
      ''              <html><body>'',
      ''                  <h2>Error</h2>'',
      ''                  <p>Invalid state parameter. This may be a sign of a CSRF attack. Please close this window and try again.</p>'',
      ''              </body></html>'',
      ''          '']"

definition relay_script :: "string \<Rightarrow> string \<Rightarrow> string" where
  "relay_script json targetOrigin = join [CHR 0x0A]
     [[],
      ''          <script>'',
      ''              if (window.opener) {'',
      ''                  window.opener.postMessage('' @ json @ '', '' @ [CHR 0x27] @ targetOrigin @ [CHR 0x27] @ '');'',
      ''              }'',
      ''              window.close();'',
      ''          </script>'',
      ''      '']"

definition relay_page :: "string \<Rightarrow> string \<Rightarrow> string \<Rightarrow> string" where
  "relay_page json targetOrigin msg = join [CHR 0x0A]
     [[],
      ''          <html>'',
      ''              <head><title>Authentication Complete</title></head>'',
      ''              <body>'',
      ''                  <p>'' @ msg @ '' You can close this window now.</p>'',
      ''                  '' @ relay_script json targetOrigin,
      ''              </body>'',
      ''          </html>'',
      ''      '']"

fun message_text :: "(rat \<Rightarrow> string) \<Rightarrow> message \<Rightarrow> string" where
  "message_text num (AuthenticationFailed err) = ''Authentication failed: '' @ js_toString num err"
| "message_text num AuthenticationSuccessful = ''Authentication successful!''"

text \<open>The text a response carries to the browser, for the responses that are pages or
  plain texts. \<open>stringify\<close> stands for \<open>JSON.stringify\<close> on \<open>result\<close>.\<close>

fun sent_text :: "(result \<Rightarrow> string) \<Rightarrow> (rat \<Rightarrow> string) \<Rightarrow> response \<Rightarrow> string option" where
  "sent_text stringify num (RelayPage r targetOrigin msg) =
     Some (relay_page (stringify r) targetOrigin (message_text num msg))"
| "sent_text stringify num InvalidState = Some invalid_state_page"
| "sent_text stringify num (Send n s) = Some s"
| "sent_text stringify num (SendText s) = Some s"
| "sent_text stringify num r = None"

section \<open>\<open>GET /oauth/start\<close>\<close>

definition to_lower :: "char \<Rightarrow> char" where
  "to_lower c = (let n = of_char c :: nat in if 65 \<le> n \<and> n \<le> 90 then char_of (n + 32) else c)"

text \<open>\<open>.\<close> matches every character but a line terminator.\<close>

definition dot :: "char \<Rightarrow> bool" where
  "dot c = (c \<noteq> CHR 0x0A \<and> c \<noteq> CHR 0x0D)"

text \<open>
  \<open>/^https?:\/\/.+/i.test(s)\<close> on a string: the string starts with \<open>http://\<close> or
  \<open>https://\<close> in any case, and a character that is no line terminator follows.
\<close>

definition redirect_test :: "string \<Rightarrow> bool" where
  "redirect_test s =
     ((map to_lower (take 7 s) = ''http://'' \<and> (case drop 7 s of [] \<Rightarrow> False | c # _ \<Rightarrow> dot c))
    \<or> (map to_lower (take 8 s) = ''https://'' \<and> (case drop 8 s of [] \<Rightarrow> False | c # _ \<Rightarrow> dot c)))"

text \<open>
  The handler, given the value \<open>state\<close> that \<open>crypto.randomBytes(16).toString("hex")\<close>
  returns for this request. It gives the response and the store. \<open>test\<close> coerces its
  argument to a string first; the handler is not \<open>async\<close>, so when that coercion throws
  Express answers 500.
\<close>

definition oauth_start :: "env \<Rightarrow> txns \<Rightarrow> query \<Rightarrow> string \<Rightarrow> response \<times> txns" where
  "oauth_start env m q state =
     (let provider = q ''provider''; redirect = q ''redirect'' in
      if provider \<noteq> Some (QStr ''spotify'') \<and> provider \<noteq> Some (QStr ''google'')
      then (Send 400 ''bad provider'', m)
      else if \<not> truthy_q redirect
      then (Send 400 ''bad redirect'', m)
      else case query_toString redirect of
        None \<Rightarrow> (ExpressError 500, m)
      | Some r \<Rightarrow>
        if \<not> redirect_test r
        then (Send 400 ''bad redirect'', m)
        else
          let m' = m(state \<mapsto> \<lparr> redirect = redirect \<rparr>) in
          if provider = Some (QStr ''spotify'') then
            (Redirect
               (set_param ''show_dialog'' ''true''
               (set_param ''state'' state
               (set_param ''scope'' (scope (cfg_spotify env))
               (set_param ''redirect_uri'' (js_str (redirectUri (cfg_spotify env)))
               (set_param ''client_id'' (js_str (clientId (cfg_spotify env)))
               (set_param ''response_type'' ''code''
               (new_URL (auth (cfg_spotify env))))))))), m')
          else
            (Redirect
               (set_param ''state'' state
               (set_param ''prompt'' ''consent''
               (set_param ''access_type'' ''offline''
               (set_param ''scope'' (scope (cfg_google env))
               (set_param ''redirect_uri'' (js_str (redirectUri (cfg_google env)))
               (set_param ''client_id'' (js_str (clientId (cfg_google env)))
               (set_param ''response_type'' ''code''
               (new_URL (auth (cfg_google env)))))))))), m'))"

section \<open>Token exchange helpers\<close>

text \<open>
  What \<open>fetch\<close> is called with, and what comes back: the promise rejects (no connection),
  or a response arrives with its status and its body, \<open>None\<close> when the body is not JSON
  (\<open>r.json()\<close> rejects). \<open>r.ok\<close> is a status from 200 to 299.
\<close>

record http_request =
  url :: string
  http_method :: string
  headers :: "(string \<times> string) list"
  body :: "(string \<times> string) list"

datatype fetch_result = Rejects | Responds nat "jsval option"

type_synonym net = "http_request \<Rightarrow> fetch_result"

definition ok :: "nat \<Rightarrow> bool" where
  "ok st = (200 \<le> st \<and> st \<le> 299)"

text \<open>A call of \<open>fetch\<close>: the request goes out, which is recorded, and the network
  answers it.\<close>

definition do_fetch :: "net \<Rightarrow> http_request \<Rightarrow> http_request list \<times> fetch_result" where
  "do_fetch fetch req = ([req], fetch req)"

text \<open>
  Each helper gives the requests it sent and what it returns, \<open>None\<close> when it throws.
  \<open>base64\<close> stands for \<open>Buffer.from(s).toString("base64")\<close>. The arguments of \<open>fetch\<close>
  are built before \<open>fetch\<close> is called: when \<open>new URLSearchParams\<close> cannot coerce \<open>code\<close> to
  a string it throws, and nothing is sent.
\<close>

definition exchangeSpotify :: "(string \<Rightarrow> string) \<Rightarrow> net \<Rightarrow> env \<Rightarrow> qval option \<Rightarrow> http_request list \<times> jsval option" where
  "exchangeSpotify base64 fetch env code =
     (case query_toString code of
        None \<Rightarrow> ([], None)
      | Some c \<Rightarrow>
          (case do_fetch fetch
             \<lparr> url = token (cfg_spotify env), http_method = ''POST'',
               headers =
                 [(''Content-Type'', ''application/x-www-form-urlencoded''),
                  (''Authorization'', ''Basic '' @
                     base64 (js_str (clientId (cfg_spotify env)) @ '':'' @ js_str (clientSecret (cfg_spotify env))))],
               body =
                 [(''grant_type'', ''authorization_code''),
                  (''code'', c),
                  (''redirect_uri'', js_str (redirectUri (cfg_spotify env)))] \<rparr> of
             (calls, Rejects) \<Rightarrow> (calls, None)
           | (calls, Responds st None) \<Rightarrow> (calls, None)
           | (calls, Responds st (Some data)) \<Rightarrow>
               if \<not> ok st then
                 (case (get_prop data ''error_description'', get_prop data ''error'') of
                    (Some d, Some e) \<Rightarrow>
                      (calls,
                       Some (JObj [(''error'', js_or d (js_or e (JStr ''Failed to exchange token with Spotify'')))]))
                  | _ \<Rightarrow> (calls, None))
               else (calls, Some data)))"

definition exchangeGoogle :: "net \<Rightarrow> env \<Rightarrow> qval option \<Rightarrow> http_request list \<times> jsval option" where
  "exchangeGoogle fetch env code =
     (case query_toString code of
        None \<Rightarrow> ([], None)
      | Some c \<Rightarrow>
          (case do_fetch fetch
             \<lparr> url = token (cfg_google env), http_method = ''POST'',
               headers = [(''Content-Type'', ''application/x-www-form-urlencoded'')],
               body =
                 [(''grant_type'', ''authorization_code''),
                  (''code'', c),
                  (''client_id'', js_str (clientId (cfg_google env))),
                  (''client_secret'', js_str (clientSecret (cfg_google env))),
                  (''redirect_uri'', js_str (redirectUri (cfg_google env)))] \<rparr> of
             (calls, Rejects) \<Rightarrow> (calls, None)
           | (calls, Responds st None) \<Rightarrow> (calls, None)
           | (calls, Responds st (Some data)) \<Rightarrow>
               if \<not> ok st then
                 (case (get_prop data ''error_description'', get_prop data ''error'') of
                    (Some d, Some e) \<Rightarrow>
                      (calls,
                       Some (JObj [(''error'', js_or d (js_or e (JStr ''Failed to exchange token with Google'')))]))
                  | _ \<Rightarrow> (calls, None))
               else (calls, Some data)))"

section \<open>\<open>finish\<close>\<close>

text \<open>
  \<open>origin\<close> stands for \<open>new URL(s).origin\<close> on a string: \<open>None\<close> when \<open>new URL\<close> throws.
  The entry is deleted before \<open>result\<close>, \<open>targetOrigin\<close> and the message are computed, so
  it is gone also when one of them throws: \<open>data.error\<close> on \<open>null\<close>, the coercion of the
  stored redirect to a string, \<open>new URL\<close>, or the coercion of \<open>result.error\<close> to a string
  in the message.
\<close>

definition finish :: "(string \<Rightarrow> string option) \<Rightarrow> txns \<Rightarrow> qval option \<Rightarrow> jsval \<Rightarrow> string \<Rightarrow> bool \<Rightarrow> response \<times> txns" where
  "finish origin m state data provider isError =
     (case txns_get m state of
        None \<Rightarrow> (InvalidState, m)
      | Some txn \<Rightarrow>
          (let m' = txns_delete m state in
           if isError then
             (case get_prop data ''error'' of
                None \<Rightarrow> (Throws, m')
              | Some e \<Rightarrow>
                  (let err = js_or e (JStr ''An unknown error occurred.'') in
                   case query_toString (redirect txn) of
                     None \<Rightarrow> (Throws, m')
                   | Some r \<Rightarrow>
                       (case origin r of
                          None \<Rightarrow> (Throws, m')
                        | Some targetOrigin \<Rightarrow>
                            if \<not> stringable err then (Throws, m')
                            else (RelayPage (ErrorResult provider err) targetOrigin (AuthenticationFailed err), m'))))
           else
             (case get_prop data ''access_token'' of
                None \<Rightarrow> (Throws, m')
              | Some t \<Rightarrow>
                  (case query_toString (redirect txn) of
                     None \<Rightarrow> (Throws, m')
                   | Some r \<Rightarrow>
                       (case origin r of
                          None \<Rightarrow> (Throws, m')
                        | Some targetOrigin \<Rightarrow>
                            (RelayPage (TokenResult provider t) targetOrigin AuthenticationSuccessful, m'))))))"

section \<open>\<open>GET /callback/spotify\<close> and \<open>GET /callback/google\<close>\<close>

text \<open>
  A handler gives the response, the store and the requests it sent with \<open>fetch\<close>. It
  does not touch the store before the exchange has returned: \<open>m\<close> is the store at the
  moment \<open>finish\<close> runs. The handlers are \<open>async\<close> and have no \<open>try\<close>: what the helper or
  \<open>finish\<close> throws leaves the handler (\<open>Throws\<close>).
\<close>

definition callback_spotify ::
  "(string \<Rightarrow> string option) \<Rightarrow> (string \<Rightarrow> string) \<Rightarrow> net \<Rightarrow> env \<Rightarrow> txns \<Rightarrow> query \<Rightarrow> response \<times> txns \<times> http_request list" where
  "callback_spotify origin base64 fetch env m q =
     (let code = q ''code''; state = q ''state''; error = q ''error'' in
      if \<not> truthy_q state then (Send 400 ''Missing state from Spotify callback.'', m, [])
      else if truthy_q error then
        (case finish origin m state (JObj [(''error'', jsval_of_query error)]) ''spotify'' True of
           (r, m') \<Rightarrow> (r, m', []))
      else if \<not> truthy_q code then
        (case finish origin m state (JObj [(''error'', JStr ''Missing code from Spotify callback.'')]) ''spotify'' True of
           (r, m') \<Rightarrow> (r, m', []))
      else
        (case exchangeSpotify base64 fetch env code of
           (calls, None) \<Rightarrow> (Throws, m, calls)
         | (calls, Some tokens) \<Rightarrow>
             (case (get_prop tokens ''error'', get_prop tokens ''access_token'') of
                (Some e, Some t) \<Rightarrow>
                  if truthy e \<or> \<not> truthy t then
                    (case finish origin m state (JObj [(''error'', e)]) ''spotify'' True of
                       (r, m') \<Rightarrow> (r, m', calls))
                  else
                    (case finish origin m state tokens ''spotify'' False of
                       (r, m') \<Rightarrow> (r, m', calls))
              | _ \<Rightarrow> (Throws, m, calls))))"

definition callback_google ::
  "(string \<Rightarrow> string option) \<Rightarrow> net \<Rightarrow> env \<Rightarrow> txns \<Rightarrow> query \<Rightarrow> response \<times> txns \<times> http_request list" where
  "callback_google origin fetch env m q =
     (let code = q ''code''; state = q ''state''; error = q ''error'' in
      if \<not> truthy_q state then (Send 400 ''Missing state from Google callback.'', m, [])
      else if truthy_q error then
        (case finish origin m state (JObj [(''error'', jsval_of_query error)]) ''google'' True of
           (r, m') \<Rightarrow> (r, m', []))
      else if \<not> truthy_q code then
        (case finish origin m state (JObj [(''error'', JStr ''Missing code from Google callback.'')]) ''google'' True of
           (r, m') \<Rightarrow> (r, m', []))
      else
        (case exchangeGoogle fetch env code of
           (calls, None) \<Rightarrow> (Throws, m, calls)
         | (calls, Some tokens) \<Rightarrow>
             (case (get_prop tokens ''error'', get_prop tokens ''access_token'') of
                (Some e, Some t) \<Rightarrow>
                  if truthy e \<or> \<not> truthy t then
                    (case finish origin m state (JObj [(''error'', e)]) ''google'' True of
                       (r, m') \<Rightarrow> (r, m', calls))
                  else
                    (case finish origin m state tokens ''google'' False of
                       (r, m') \<Rightarrow> (r, m', calls))
              | _ \<Rightarrow> (Throws, m, calls))))"

section \<open>The relay as a state machine\<close>

text \<open>
  The three OAuth routes. A start request carries the state the random generator
  returns for it, a callback carries the network it meets. The runtime is
  single-threaded and a handler reads and writes the store at one point only (the
  \<open>txns.set\<close> of \<open>/oauth/start\<close>, the \<open>txns.get\<close> and \<open>txns.delete\<close> of \<open>finish\<close>), so
  the requests act on the store one after the other, in the order of those points.
\<close>

datatype request =
    OauthStart query string
  | CallbackSpotify query net
  | CallbackGoogle query net

fun handle :: "(string \<Rightarrow> string option) \<Rightarrow> (string \<Rightarrow> string) \<Rightarrow> env \<Rightarrow> txns \<Rightarrow> request \<Rightarrow> response \<times> txns" where
  "handle origin base64 env m (OauthStart q state) = oauth_start env m q state"
| "handle origin base64 env m (CallbackSpotify q fetch) =
     (case callback_spotify origin base64 fetch env m q of (r, m', calls) \<Rightarrow> (r, m'))"
| "handle origin base64 env m (CallbackGoogle q fetch) =
     (case callback_google origin fetch env m q of (r, m', calls) \<Rightarrow> (r, m'))"

fun serve :: "(string \<Rightarrow> string option) \<Rightarrow> (string \<Rightarrow> string) \<Rightarrow> env \<Rightarrow> txns \<Rightarrow> request list \<Rightarrow> txns" where
  "serve origin base64 env m [] = m"
| "serve origin base64 env m (rq # rqs) = serve origin base64 env (snd (handle origin base64 env m rq)) rqs"

text \<open>The state a request stores, if it is a start request that stores one.\<close>

fun issues :: "request \<Rightarrow> string \<Rightarrow> bool" where
  "issues (OauthStart q state) s = (state = s)"
| "issues (CallbackSpotify q fetch) s = False"
| "issues (CallbackGoogle q fetch) s = False"

section \<open>The AI endpoints of \<open>src/server.js\<close>\<close>

text \<open>
  The handlers are given \<open>req.body\<close>. In each of them the \<open>try\<close> block up to the
  model's answer is a parameter \<open>ai\<close>; with the \<open>@google/genai\<close> that the file names,
  \<open>genAI.getGenerativeModel\<close> is no function and that block throws, which is the \<open>ai\<close>
  that fails.

  \<open>genAI = geminiApiKey ? new GoogleGenAI(geminiApiKey) : null\<close>: the key when it is
  set and not empty.
\<close>

definition genAI :: "env \<Rightarrow> string option" where
  "genAI env = (case env ''GEMINI_API_KEY'' of None \<Rightarrow> None | Some k \<Rightarrow> if k = [] then None else Some k)"

definition error_body :: "string \<Rightarrow> jsval" where
  "error_body msg = JObj [(''error'', JStr msg)]"

text \<open>\<open>x?.name\<close> and \<open>x?.[0]\<close>.\<close>

definition opt_prop :: "jsval \<Rightarrow> string \<Rightarrow> jsval" where
  "opt_prop x name = (case get_prop x name of None \<Rightarrow> JUndefined | Some v \<Rightarrow> v)"

fun opt_first :: "jsval \<Rightarrow> jsval" where
  "opt_first (JArr (x # xs)) = x"
| "opt_first (JStr (c # cs)) = JStr [c]"
| "opt_first (JObj kvs) = (case map_of kvs ''0'' of None \<Rightarrow> JUndefined | Some v \<Rightarrow> v)"
| "opt_first v = JUndefined"

text \<open>
  \<open>POST /generate-album-cover-prompt\<close>. \<open>req.body\<close> is what \<open>express.json()\<close> left there.
  \<open>ai imageData imageMimeType mood styles\<close> stands for the \<open>try\<close> block up to
  \<open>response.text()\<close>: the text, or \<open>None\<close> when something in it throws.
\<close>

definition generate_album_cover_prompt ::
  "(jsval \<Rightarrow> jsval \<Rightarrow> jsval \<Rightarrow> jsval \<Rightarrow> jsval option) \<Rightarrow> env \<Rightarrow> jsval \<Rightarrow> response" where
  "generate_album_cover_prompt ai env reqbody =
     (if genAI env = None then SendJson 503 (error_body ''AI service not configured.'')
      else
        case (get_prop reqbody ''imageData'', get_prop reqbody ''imageMimeType'',
              get_prop reqbody ''mood'', get_prop reqbody ''styles'') of
          (Some imageData, Some imageMimeType, Some mood, Some styles) \<Rightarrow>
            if \<not> truthy imageData \<or> \<not> truthy imageMimeType \<or> \<not> truthy mood \<or> \<not> truthy styles
            then SendJson 400 (error_body ''Missing parameters.'')
            else
              (case ai imageData imageMimeType mood styles of
                 None \<Rightarrow> SendJson 500 (error_body ''Error generating album cover prompt.'')
               | Some generatedText \<Rightarrow>
                   if \<not> truthy generatedText
                   then SendJson 500 (error_body ''Error generating album cover prompt.'')
                   else SendJson 200 (JObj [(''prompt'', generatedText)]))
        | _ \<Rightarrow> Throws)"

text \<open>
  \<open>POST /edit-selfie-into-album-cover\<close>. \<open>ai imageData imageMimeType prompt\<close> stands for
  the \<open>try\<close> block up to \<open>result.response\<close>: the response, or the message of the error
  thrown. \<open>str\<close> stands for the string coercion of a template literal.
\<close>

definition edit_selfie_into_album_cover ::
  "(jsval \<Rightarrow> string) \<Rightarrow> (jsval \<Rightarrow> jsval \<Rightarrow> jsval \<Rightarrow> string + jsval) \<Rightarrow> env \<Rightarrow> jsval \<Rightarrow> response" where
  "edit_selfie_into_album_cover str ai env reqbody =
     (if genAI env = None then SendJson 503 (error_body ''AI service not configured.'')
      else
        case (get_prop reqbody ''imageData'', get_prop reqbody ''imageMimeType'', get_prop reqbody ''prompt'') of
          (Some imageData, Some imageMimeType, Some prompt) \<Rightarrow>
            if \<not> truthy imageData \<or> \<not> truthy imageMimeType \<or> \<not> truthy prompt
            then SendJson 400 (error_body ''Missing parameters.'')
            else
              (case ai imageData imageMimeType prompt of
                 Inl msg \<Rightarrow> SendJson 500 (error_body (''Error editing selfie into album cover: '' @ msg))
               | Inr response \<Rightarrow>
                   (let candidate = opt_first (opt_prop response ''candidates'');
                        part = opt_first (opt_prop (opt_prop candidate ''content'') ''parts'')
                    in if truthy part \<and> truthy (opt_prop part ''inlineData'') then
                         SendJson 200
                           (JObj [(''imageData'', opt_prop (opt_prop part ''inlineData'') ''data''),
                                  (''mimeType'', opt_prop (opt_prop part ''inlineData'') ''mimeType'')])
                       else
                         (let finishReason = opt_prop candidate ''finishReason'' in
                          if truthy finishReason \<and> finishReason \<noteq> JStr ''STOP'' then
                            SendJson 500 (error_body (''Error editing selfie into album cover: '' @
                              ''Image generation stopped unexpectedly. Reason: '' @ str finishReason @
                              ''. This can happen due to safety settings.''))
                          else
                            SendJson 500 (error_body (''Error editing selfie into album cover: '' @
                              ''No image was generated by the model. The response may have been empty or blocked.'')))))
        | _ \<Rightarrow> Throws)"

text \<open>
  \<open>POST /generate-playlist-vibe\<close>. \<open>ai mood albumPrompt playlistLength\<close> stands for the
  \<open>try\<close> block up to \<open>response.text()\<close>: the text, or \<open>None\<close> when something in it
  throws. The text is sent as it is, under \<open>Content-Type: application/json\<close>.
\<close>

definition generate_playlist_vibe ::
  "(jsval \<Rightarrow> jsval \<Rightarrow> jsval \<Rightarrow> string option) \<Rightarrow> env \<Rightarrow> jsval \<Rightarrow> response" where
  "generate_playlist_vibe ai env reqbody =
     (if genAI env = None then SendJson 503 (error_body ''AI service not configured.'')
      else
        case (get_prop reqbody ''mood'', get_prop reqbody ''albumPrompt'', get_prop reqbody ''playlistLength'') of
          (Some mood, Some albumPrompt, Some playlistLength) \<Rightarrow>
            if \<not> truthy mood \<or> \<not> truthy albumPrompt \<or> \<not> truthy playlistLength
            then SendJson 400 (error_body ''Missing parameters.'')
            else
              (case ai mood albumPrompt playlistLength of
                 None \<Rightarrow> SendJson 500 (error_body ''Error generating playlist vibe.'')
               | Some generatedText \<Rightarrow>
                   if generatedText = []
                   then SendJson 500 (error_body ''Error generating playlist vibe.'')
                   else SendText generatedText)
        | _ \<Rightarrow> Throws)"

text \<open>
  \<open>app.use(express.json({ limit: '10mb' }))\<close> runs before every route. What it makes of
  a request is an input of the model: it passes an error on, and Express answers with
  the status of that error (400 for a body that is no JSON or whose JSON is neither an
  object nor an array, 413 for a body over the limit, 415 for an encoding it does not
  know), or it leaves \<open>req.body\<close> (the parsed object or array; \<open>{}\<close> for a request without
  a JSON body) and the route's handler runs.
\<close>

datatype parsed = ParserError nat | ReqBody jsval

definition express_json :: "(jsval \<Rightarrow> response) \<Rightarrow> parsed \<Rightarrow> response" where
  "express_json handler p = (case p of ParserError st \<Rightarrow> ExpressError st | ReqBody b \<Rightarrow> handler b)"

definition post_generate_album_cover_prompt ::
  "(jsval \<Rightarrow> jsval \<Rightarrow> jsval \<Rightarrow> jsval \<Rightarrow> jsval option) \<Rightarrow> env \<Rightarrow> parsed \<Rightarrow> response" where
  "post_generate_album_cover_prompt ai env p = express_json (generate_album_cover_prompt ai env) p"

definition post_edit_selfie_into_album_cover ::
  "(jsval \<Rightarrow> string) \<Rightarrow> (jsval \<Rightarrow> jsval \<Rightarrow> jsval \<Rightarrow> string + jsval) \<Rightarrow> env \<Rightarrow> parsed \<Rightarrow> response" where
  "post_edit_selfie_into_album_cover str ai env p = express_json (edit_selfie_into_album_cover str ai env) p"

definition post_generate_playlist_vibe ::
  "(jsval \<Rightarrow> jsval \<Rightarrow> jsval \<Rightarrow> string option) \<Rightarrow> env \<Rightarrow> parsed \<Rightarrow> response" where
  "post_generate_playlist_vibe ai env p = express_json (generate_playlist_vibe ai env) p"

section \<open>The JSON-safe \<open>/generate-playlist-vibe\<close> of \<open>src/unnamed/part_000\<close>\<close>

text \<open>The handler of that file, given \<open>req.body\<close>: what runs for a request that the
  middleware of the file (\<open>express.json\<close>, \<open>cors\<close>) has let through.\<close>

text \<open>\<open>\s\<close> and the characters \<open>trim\<close> removes, below 256: TAB, LF, VT, FF, CR, space
  and the no-break space.\<close>

definition is_space :: "char \<Rightarrow> bool" where
  "is_space c = (c \<in> {CHR 0x09, CHR 0x0A, CHR 0x0B, CHR 0x0C, CHR 0x0D, CHR 0x20, CHR 0xA0})"

definition trim :: "string \<Rightarrow> string" where
  "trim s = rev (dropWhile is_space (rev (dropWhile is_space s)))"

text \<open>
  \<open>s.match(/^```(?:json)?\s*([\s\S]*?)\s*```$/i)\<close>, giving the group \<open>m[1]\<close>: the string
  opens with three backquotes, an optional \<open>json\<close> in any case and white space, and it
  ends with three more backquotes; the lazy group is what lies between, up to the white
  space before the closing backquotes.
\<close>

definition fence :: string where
  "fence = [CHR 0x60, CHR 0x60, CHR 0x60]"

definition fence_match :: "string \<Rightarrow> string option" where
  "fence_match s =
     (if take 3 s = fence then
        (let x = drop 3 s;
             y = (if map to_lower (take 4 x) = ''json'' then drop 4 x else x);
             z = dropWhile is_space y
         in if 3 \<le> length z \<and> drop (length z - 3) z = fence
            then Some (rev (dropWhile is_space (rev (take (length z - 3) z))))
            else None)
      else None)"

text \<open>\<open>ai = geminiApiKey ? new GoogleGenAI(...) : null\<close> with
  \<open>geminiApiKey = process.env.GEMINI_API_KEY || process.env.GOOGLE_API_KEY\<close>.\<close>

definition ai_key :: "env \<Rightarrow> string option" where
  "ai_key env =
     (case env ''GEMINI_API_KEY'' of
        Some k \<Rightarrow> if k \<noteq> [] then Some k
                  else (case env ''GOOGLE_API_KEY'' of None \<Rightarrow> None | Some g \<Rightarrow> if g = [] then None else Some g)
      | None \<Rightarrow> (case env ''GOOGLE_API_KEY'' of None \<Rightarrow> None | Some g \<Rightarrow> if g = [] then None else Some g))"

text \<open>What \<open>ai.models.generateContent\<close> comes back with: it throws, or \<open>resp.text\<close> is
  \<open>undefined\<close>, or it is a text.\<close>

datatype generated = Fails | NoText | Text string

text \<open>\<open>req.body || {}\<close>\<close>

definition body_or_empty :: "jsval \<Rightarrow> jsval" where
  "body_or_empty b = js_or b (JObj [])"

text \<open>\<open>JSON.parse\<close> is a parameter: \<open>None\<close> when it throws.\<close>

definition generate_playlist_vibe_json ::
  "(string \<Rightarrow> jsval option) \<Rightarrow> (jsval \<Rightarrow> jsval \<Rightarrow> jsval \<Rightarrow> generated) \<Rightarrow> env \<Rightarrow> jsval \<Rightarrow> response" where
  "generate_playlist_vibe_json JSON_parse ai env reqbody =
     (if ai_key env = None then SendJson 503 (error_body ''AI service not configured.'')
      else
        case (get_prop (body_or_empty reqbody) ''mood'', get_prop (body_or_empty reqbody) ''albumPrompt'',
              get_prop (body_or_empty reqbody) ''playlistLength'') of
          (Some mood, Some albumPrompt, Some playlistLength) \<Rightarrow>
            if \<not> truthy mood \<or> \<not> truthy albumPrompt \<or> \<not> truthy playlistLength
            then SendJson 400 (error_body ''Missing parameters.'')
            else
              (case ai mood albumPrompt playlistLength of
                 Fails \<Rightarrow> SendJson 500 (error_body ''Error generating playlist vibe.'')
               | resp \<Rightarrow>
                   (let jsonText = (case resp of Text t \<Rightarrow> trim t | _ \<Rightarrow> []);
                        jsonText = (case fence_match jsonText of Some g \<Rightarrow> trim g | None \<Rightarrow> jsonText)
                    in case JSON_parse jsonText of
                         None \<Rightarrow> SendJson 502 (error_body ''Model did not return valid JSON.'')
                       | Some data \<Rightarrow> SendJson 200 data))
        | _ \<Rightarrow> Throws)"

section \<open>Facts about \<open>/oauth/start\<close>\<close>

lemma redirect_test_example: "redirect_test ''HTTPS://app.example.com/cb''"
  by code_simp

lemma redirect_test_javascript: "\<not> redirect_test ''javascript:alert(1)''"
  by code_simp

lemma redirect_test_Nil: "\<not> redirect_test []"
  by (simp add: redirect_test_def)

lemma redirect_test_undefined: "\<not> redirect_test ''undefined''"
  by code_simp

lemma redirect_test_truthy: "query_toString q = Some r \<Longrightarrow> redirect_test r \<Longrightarrow> truthy_q q"
  by (cases q rule: truthy_q.cases) (auto simp: redirect_test_Nil redirect_test_undefined)

lemma query_toString_None_truthy: "query_toString q = None \<Longrightarrow> truthy_q q"
  by (cases q rule: truthy_q.cases) auto

text \<open>
  Claim C5, evaluated on the code. \<open>/oauth/start\<close> answers 400 for every \<open>provider\<close> that
  is not the string \<open>spotify\<close> or \<open>google\<close> (an absent one too), and for every \<open>redirect\<close>
  that is absent or whose string form the pattern \<open>^https?:\/\/.+\<close> does not match. A
  \<open>redirect\<close> that has no string form (an object with a key \<open>toString\<close>, alone or in an
  array) makes \<open>test\<close> throw, and the answer is 500 instead of 400. In all these cases the
  store is as it was.
\<close>

theorem oauth_start_rejects:
  assumes "(q ''provider'' \<noteq> Some (QStr ''spotify'') \<and> q ''provider'' \<noteq> Some (QStr ''google''))
         \<or> q ''redirect'' = None
         \<or> query_toString (q ''redirect'') = None
         \<or> (\<exists>r. query_toString (q ''redirect'') = Some r \<and> \<not> redirect_test r)"
  shows "oauth_start env m q state =
           (if q ''provider'' \<noteq> Some (QStr ''spotify'') \<and> q ''provider'' \<noteq> Some (QStr ''google'')
            then Send 400 ''bad provider''
            else if query_toString (q ''redirect'') = None then ExpressError 500
            else Send 400 ''bad redirect'', m)"
  using assms query_toString_None_truthy[of "q ''redirect''"]
  by (auto simp: oauth_start_def Let_def redirect_test_undefined split: option.splits)

theorem oauth_start_rejects_witness:
  "oauth_start Map.empty Map.empty
     (map_of [(''provider'', QStr ''twitter''), (''redirect'', QStr ''https://app.example.com/done'')])
     ''00112233445566778899aabbccddeeff''
   = (Send 400 ''bad provider'', Map.empty)
 \<and> \<not> redirect_test ''javascript:alert(1)''
 \<and> oauth_start Map.empty Map.empty
     (map_of [(''provider'', QStr ''spotify''), (''redirect'', QStr ''javascript:alert(1)'')])
     ''00112233445566778899aabbccddeeff''
   = (Send 400 ''bad redirect'', Map.empty)
 \<and> query_toString (Some (QObj [(''toString'', QStr ''x'')])) = None
 \<and> oauth_start Map.empty Map.empty
     (map_of [(''provider'', QStr ''spotify''), (''redirect'', QObj [(''toString'', QStr ''x'')])])
     ''00112233445566778899aabbccddeeff''
   = (ExpressError 500, Map.empty)"
  using oauth_start_rejects
          [of "map_of [(''provider'', QStr ''twitter''), (''redirect'', QStr ''https://app.example.com/done'')]"
              Map.empty Map.empty "''00112233445566778899aabbccddeeff''"]
        oauth_start_rejects
          [of "map_of [(''provider'', QStr ''spotify''), (''redirect'', QStr ''javascript:alert(1)'')]"
              Map.empty Map.empty "''00112233445566778899aabbccddeeff''"]
        oauth_start_rejects
          [of "map_of [(''provider'', QStr ''spotify''), (''redirect'', QObj [(''toString'', QStr ''x'')])]"
              Map.empty Map.empty "''00112233445566778899aabbccddeeff''"]
        redirect_test_javascript
  by simp

text \<open>
  Claim C4. For \<open>provider\<close> \<open>spotify\<close> or \<open>google\<close> and a \<open>redirect\<close> whose string form the
  pattern matches, \<open>/oauth/start\<close> with a generated state that is not yet a key of the
  store adds exactly one entry, under that state and holding the redirect, and redirects
  to the provider's authorization endpoint with exactly these parameters, in this order:
  for spotify \<open>response_type=code\<close>, \<open>client_id\<close>, \<open>redirect_uri\<close>, \<open>scope\<close>, \<open>state\<close>,
  \<open>show_dialog=true\<close>; for google \<open>response_type=code\<close>, \<open>client_id\<close>, \<open>redirect_uri\<close>,
  \<open>scope\<close>, \<open>access_type=offline\<close>, \<open>prompt=consent\<close>, \<open>state\<close>.
\<close>

theorem oauth_start_creates:
  assumes "q ''provider'' = Some (QStr ''spotify'') \<or> q ''provider'' = Some (QStr ''google'')"
    and "query_toString (q ''redirect'') = Some r"
    and "redirect_test r"
    and "m state = None"
  shows "oauth_start env m q state =
           (Redirect
              (if q ''provider'' = Some (QStr ''spotify'') then
                 \<lparr> endpoint = ''https://accounts.spotify.com/authorize'',
                   searchParams =
                     [(''response_type'', ''code''),
                      (''client_id'', js_str (env ''SPOTIFY_CLIENT_ID'')),
                      (''redirect_uri'', js_str (env ''SPOTIFY_REDIRECT_URI'')),
                      (''scope'', ''playlist-modify-public playlist-modify-private ugc-image-upload''),
                      (''state'', state),
                      (''show_dialog'', ''true'')] \<rparr>
               else
                 \<lparr> endpoint = ''https://accounts.google.com/o/oauth2/v2/auth'',
                   searchParams =
                     [(''response_type'', ''code''),
                      (''client_id'', js_str (env ''GOOGLE_CLIENT_ID'')),
                      (''redirect_uri'', js_str (env ''GOOGLE_REDIRECT_URI'')),
                      (''scope'', ''https://www.googleapis.com/auth/youtube''),
                      (''access_type'', ''offline''),
                      (''prompt'', ''consent''),
                      (''state'', state)] \<rparr>),
            m(state \<mapsto> \<lparr> redirect = q ''redirect'' \<rparr>))
       \<and> dom (snd (oauth_start env m q state)) - dom m = {state}
       \<and> (\<forall>k. k \<noteq> state \<longrightarrow> snd (oauth_start env m q state) k = m k)"
  using assms redirect_test_truthy[of "q ''redirect''" r]
  by (auto simp: oauth_start_def Let_def set_param_def new_URL_def cfg_spotify_def cfg_google_def)

theorem oauth_start_creates_witness:
  "redirect_test ''HTTPS://app.example.com/cb''
 \<and> oauth_start (map_of [(''GOOGLE_CLIENT_ID'', ''id-1''), (''GOOGLE_REDIRECT_URI'', ''https://relay.example.com/callback/google'')])
       Map.empty
       (map_of [(''provider'', QStr ''google''), (''redirect'', QStr ''HTTPS://app.example.com/cb'')])
       ''00112233445566778899aabbccddeeff''
   = (Redirect
        \<lparr> endpoint = ''https://accounts.google.com/o/oauth2/v2/auth'',
          searchParams =
            [(''response_type'', ''code''),
             (''client_id'', ''id-1''),
             (''redirect_uri'', ''https://relay.example.com/callback/google''),
             (''scope'', ''https://www.googleapis.com/auth/youtube''),
             (''access_type'', ''offline''),
             (''prompt'', ''consent''),
             (''state'', ''00112233445566778899aabbccddeeff'')] \<rparr>,
      [''00112233445566778899aabbccddeeff'' \<mapsto> \<lparr> redirect = Some (QStr ''HTTPS://app.example.com/cb'') \<rparr>])"
  using oauth_start_creates
          [of "map_of [(''provider'', QStr ''google''), (''redirect'', QStr ''HTTPS://app.example.com/cb'')]"
              "''HTTPS://app.example.com/cb''"
              Map.empty "''00112233445566778899aabbccddeeff''"
              "map_of [(''GOOGLE_CLIENT_ID'', ''id-1''), (''GOOGLE_REDIRECT_URI'', ''https://relay.example.com/callback/google'')]"]
        redirect_test_example
  by simp

section \<open>Facts about \<open>finish\<close> and the store\<close>

lemma finish_absent:
  "txns_get m state = None \<Longrightarrow> finish origin m state data provider isError = (InvalidState, m)"
  by (simp add: finish_def)

lemma txns_get_Some:
  "txns_get m state = Some txn \<Longrightarrow> \<exists>s. state = Some (QStr s) \<and> m s = Some txn"
  by (cases "(m, state)" rule: txns_get.cases) auto

lemma finish_present:
  "m s = Some txn \<Longrightarrow>
     snd (finish origin m (Some (QStr s)) data provider isError) = m(s := None)
   \<and> fst (finish origin m (Some (QStr s)) data provider isError) \<noteq> InvalidState"
  by (auto simp: finish_def Let_def split: option.splits)

lemma finish_store:
  "snd (finish origin m state data provider isError) k = m k
   \<or> snd (finish origin m state data provider isError) k = None"
proof (cases "txns_get m state")
  case None
  then show ?thesis by (simp add: finish_absent)
next
  case (Some txn)
  then obtain s where "state = Some (QStr s)" "m s = Some txn"
    using txns_get_Some by blast
  then show ?thesis
    using finish_present[of m s txn origin data provider isError] by auto
qed

lemma finish_consumes: "txns_get (snd (finish origin m state data provider isError)) state = None"
proof (cases "txns_get m state")
  case None
  then show ?thesis by (simp add: finish_absent)
next
  case (Some txn)
  then obtain s where "state = Some (QStr s)" "m s = Some txn"
    using txns_get_Some by blast
  then show ?thesis
    using finish_present[of m s txn origin data provider isError] by simp
qed

lemma finish_relay:
  assumes "finish origin m state data provider isError = (RelayPage res tgt msg, m')"
  shows "\<exists>txn r. txns_get m state = Some txn \<and> query_toString (redirect txn) = Some r
           \<and> origin r = Some tgt"
  using assms by (auto simp: finish_def Let_def split: option.splits if_splits)

lemma callback_spotify_cases:
  "fst (snd (callback_spotify origin base64 fetch env m q)) = m
   \<or> (\<exists>data e. fst (snd (callback_spotify origin base64 fetch env m q))
                 = snd (finish origin m (q ''state'') data ''spotify'' e))"
  by (auto simp: callback_spotify_def Let_def split: prod.splits option.splits) (metis snd_conv)+

lemma callback_google_cases:
  "fst (snd (callback_google origin fetch env m q)) = m
   \<or> (\<exists>data e. fst (snd (callback_google origin fetch env m q))
                 = snd (finish origin m (q ''state'') data ''google'' e))"
  by (auto simp: callback_google_def Let_def split: prod.splits option.splits) (metis snd_conv)+

lemma callback_spotify_relay:
  assumes "callback_spotify origin base64 fetch env m q = (RelayPage res tgt msg, m', calls)"
  shows "\<exists>txn r. txns_get m (q ''state'') = Some txn \<and> query_toString (redirect txn) = Some r
           \<and> origin r = Some tgt"
  using assms
  by (auto simp: callback_spotify_def Let_def split: prod.splits option.splits if_splits dest: finish_relay)

lemma callback_google_relay:
  assumes "callback_google origin fetch env m q = (RelayPage res tgt msg, m', calls)"
  shows "\<exists>txn r. txns_get m (q ''state'') = Some txn \<and> query_toString (redirect txn) = Some r
           \<and> origin r = Some tgt"
  using assms
  by (auto simp: callback_google_def Let_def split: prod.splits option.splits if_splits dest: finish_relay)

lemma oauth_start_store:
  "k \<noteq> state \<Longrightarrow> snd (oauth_start env m q state) k = m k"
  by (simp add: oauth_start_def Let_def split: option.splits)

lemma callback_spotify_store:
  "fst (snd (callback_spotify origin base64 fetch env m q)) k = m k
   \<or> fst (snd (callback_spotify origin base64 fetch env m q)) k = None"
  using callback_spotify_cases[of origin base64 fetch env m q]
        finish_store[of origin m "q ''state''" _ "''spotify''" _ k]
  by metis

lemma callback_google_store:
  "fst (snd (callback_google origin fetch env m q)) k = m k
   \<or> fst (snd (callback_google origin fetch env m q)) k = None"
  using callback_google_cases[of origin fetch env m q]
        finish_store[of origin m "q ''state''" _ "''google''" _ k]
  by metis

lemma handle_store:
  "\<not> issues rq s \<Longrightarrow>
     snd (handle origin base64 env m rq) s = m s \<or> snd (handle origin base64 env m rq) s = None"
proof (cases rq)
  case (OauthStart q state)
  assume "\<not> issues rq s"
  with OauthStart show ?thesis by (simp add: oauth_start_store)
next
  case (CallbackSpotify q fetch)
  show ?thesis
    using callback_spotify_store[of origin base64 fetch env m q s]
    unfolding CallbackSpotify by (simp add: split_beta)
next
  case (CallbackGoogle q fetch)
  show ?thesis
    using callback_google_store[of origin fetch env m q s]
    unfolding CallbackGoogle by (simp add: split_beta)
qed

lemma serve_absent:
  "m s = None \<Longrightarrow> \<forall>rq \<in> set rqs. \<not> issues rq s \<Longrightarrow> serve origin base64 env m rqs s = None"
proof (induction rqs arbitrary: m)
  case Nil
  then show ?case by simp
next
  case (Cons rq rqs)
  from Cons.prems have "snd (handle origin base64 env m rq) s = None"
    using handle_store[of rq s origin base64 env m] by auto
  with Cons show ?case by simp
qed

lemma serve_store:
  "\<forall>rq \<in> set rqs. \<not> issues rq s \<Longrightarrow>
     serve origin base64 env m rqs s = m s \<or> serve origin base64 env m rqs s = None"
proof (induction rqs arbitrary: m)
  case Nil
  then show ?case by simp
next
  case (Cons rq rqs)
  have step: "snd (handle origin base64 env m rq) s = m s \<or> snd (handle origin base64 env m rq) s = None"
    using Cons.prems handle_store[of rq s origin base64 env m] by simp
  have rest: "\<forall>rq \<in> set rqs. \<not> issues rq s" using Cons.prems by simp
  show ?case
    using step Cons.IH[OF rest, of "snd (handle origin base64 env m rq)"]
          serve_absent[OF _ rest, of "snd (handle origin base64 env m rq)" origin base64 env]
    by auto
qed

text \<open>
  Claim C2. A state is consumed at most once. A call of \<open>finish\<close> with a state that is
  a key of the store deletes the entry, whatever \<open>isError\<close> is, and does not answer with
  the "invalid state" page; a call with a state that is no key of the store answers with
  that page (status 400) and leaves the store as it is. After a call of \<open>finish\<close> with a
  state, and after any further requests among which no \<open>/oauth/start\<close> generates that
  state again, every call of \<open>finish\<close> with the state answers with the "invalid state"
  page; so does every call with a state that no \<open>/oauth/start\<close> has generated.
\<close>

theorem state_consumed_once:
  assumes "\<forall>rq \<in> set rqs. \<forall>s. state = Some (QStr s) \<longrightarrow> \<not> issues rq s"
  shows "(txns_get m state = None \<longrightarrow>
            finish origin m state data provider isError = (InvalidState, m))
       \<and> (\<forall>txn. txns_get m state = Some txn \<longrightarrow>
            fst (finish origin m state data provider isError) \<noteq> InvalidState
          \<and> snd (finish origin m state data provider isError) = txns_delete m state
          \<and> txns_get (txns_delete m state) state = None)
       \<and> finish origin (serve origin base64 env (snd (finish origin m state data provider isError)) rqs)
            state data' provider' isError'
          = (InvalidState, serve origin base64 env (snd (finish origin m state data provider isError)) rqs)
       \<and> finish origin (serve origin base64 env Map.empty rqs) state data' provider' isError'
          = (InvalidState, serve origin base64 env Map.empty rqs)
       \<and> status InvalidState = Some 400"
proof -
  have absent: "txns_get m' state = None \<Longrightarrow> txns_get (serve origin base64 env m' rqs) state = None" for m'
  proof (cases "(m', state)" rule: txns_get.cases)
    case (1 m'' s)
    assume "txns_get m' state = None"
    with 1 have "m' s = None" by simp
    moreover have "\<forall>rq \<in> set rqs. \<not> issues rq s" using assms 1 by simp
    ultimately have "serve origin base64 env m' rqs s = None" by (rule serve_absent)
    with 1 show ?thesis by simp
  qed simp_all
  have present: "txns_get m state = Some txn \<Longrightarrow>
      fst (finish origin m state data provider isError) \<noteq> InvalidState
    \<and> snd (finish origin m state data provider isError) = txns_delete m state
    \<and> txns_get (txns_delete m state) state = None" for txn
  proof -
    assume "txns_get m state = Some txn"
    then obtain s where "state = Some (QStr s)" "m s = Some txn"
      using txns_get_Some by blast
    then show ?thesis
      using finish_present[of m s txn origin data provider isError] by simp
  qed
  have later: "txns_get (serve origin base64 env (snd (finish origin m state data provider isError)) rqs) state = None"
    using absent[OF finish_consumes] .
  have never: "txns_get (serve origin base64 env Map.empty rqs) state = None"
    by (rule absent) (cases "(Map.empty :: txns, state)" rule: txns_get.cases, simp_all)
  show ?thesis
    using present finish_absent[OF later] finish_absent[OF never]
    by (simp add: finish_absent)
qed

theorem state_consumed_once_witness:
  "fst (finish (\<lambda>u. Some ''https://app.example.com'')
          [''00112233445566778899aabbccddeeff'' \<mapsto> \<lparr> redirect = Some (QStr ''https://app.example.com/done'') \<rparr>]
          (Some (QStr ''00112233445566778899aabbccddeeff''))
          (JObj [(''error'', JStr ''access_denied'')]) ''spotify'' True)
     = RelayPage (ErrorResult ''spotify'' (JStr ''access_denied'')) ''https://app.example.com''
         (AuthenticationFailed (JStr ''access_denied''))
 \<and> snd (finish (\<lambda>u. Some ''https://app.example.com'')
          [''00112233445566778899aabbccddeeff'' \<mapsto> \<lparr> redirect = Some (QStr ''https://app.example.com/done'') \<rparr>]
          (Some (QStr ''00112233445566778899aabbccddeeff''))
          (JObj [(''error'', JStr ''access_denied'')]) ''spotify'' True)
     = Map.empty
 \<and> fst (finish (\<lambda>u. Some ''https://app.example.com'')
          (serve (\<lambda>u. Some ''https://app.example.com'') id Map.empty Map.empty
             [OauthStart (map_of [(''provider'', QStr ''google''), (''redirect'', QStr ''https://app.example.com/done'')])
                ''ffeeddccbbaa99887766554433221100''])
          (Some (QStr ''00112233445566778899aabbccddeeff''))
          (JObj [(''access_token'', JStr ''tok'')]) ''spotify'' False)
     = InvalidState"
proof -
  let ?origin = "\<lambda>u::string. Some ''https://app.example.com''"
  let ?s = "''00112233445566778899aabbccddeeff''"
  let ?m = "[?s \<mapsto> \<lparr> redirect = Some (QStr ''https://app.example.com/done'') \<rparr>]"
  let ?rqs = "[OauthStart (map_of [(''provider'', QStr ''google''), (''redirect'', QStr ''https://app.example.com/done'')])
                ''ffeeddccbbaa99887766554433221100'']"
  have first: "finish ?origin ?m (Some (QStr ?s)) (JObj [(''error'', JStr ''access_denied'')]) ''spotify'' True
      = (RelayPage (ErrorResult ''spotify'' (JStr ''access_denied'')) ''https://app.example.com''
           (AuthenticationFailed (JStr ''access_denied'')), Map.empty)"
    by (simp add: finish_def js_or_def Let_def)
  have fresh: "\<forall>rq \<in> set ?rqs. \<forall>s. Some (QStr ?s) = Some (QStr s) \<longrightarrow> \<not> issues rq s"
    by simp
  have "finish ?origin
          (serve ?origin id Map.empty
             (snd (finish ?origin ?m (Some (QStr ?s)) (JObj [(''error'', JStr ''access_denied'')]) ''spotify'' True)) ?rqs)
          (Some (QStr ?s)) (JObj [(''access_token'', JStr ''tok'')]) ''spotify'' False
        = (InvalidState,
           serve ?origin id Map.empty
             (snd (finish ?origin ?m (Some (QStr ?s)) (JObj [(''error'', JStr ''access_denied'')]) ''spotify'' True)) ?rqs)"
    using state_consumed_once[OF fresh] by blast
  then show ?thesis
    unfolding first by simp
qed

text \<open>
  The call of \<open>postMessage\<close> that the template of \<open>finish\<close> writes is given the origin of
  the redirect that \<open>/oauth/start\<close> stored: let \<open>/oauth/start\<close> have accepted a request,
  and let any requests follow among which no \<open>/oauth/start\<close> generates that state again;
  whenever a callback with that state then renders the relay page, its \<open>targetOrigin\<close> is
  the origin of the redirect given at \<open>/oauth/start\<close>.
\<close>

lemma template_target_origin:
  assumes "oauth_start env m0 q0 s = (Redirect u, m1)"
    and "\<forall>rq \<in> set rqs. \<not> issues rq s"
    and "q ''state'' = Some (QStr s)"
    and "rq = CallbackSpotify q fetch \<or> rq = CallbackGoogle q fetch"
    and "handle origin base64 env (serve origin base64 env m1 rqs) rq = (RelayPage res tgt msg, m2)"
  shows "\<exists>r. query_toString (q0 ''redirect'') = Some r \<and> origin r = Some tgt"
proof -
  let ?m = "serve origin base64 env m1 rqs"
  have stored: "m1 s = Some \<lparr> redirect = q0 ''redirect'' \<rparr>"
    using assms(1) by (auto simp: oauth_start_def Let_def split: if_splits option.splits)
  have "\<exists>txn r. txns_get ?m (q ''state'') = Some txn \<and> query_toString (redirect txn) = Some r
          \<and> origin r = Some tgt"
    using assms(4)
  proof
    assume "rq = CallbackSpotify q fetch"
    with assms(5) obtain calls where
      "callback_spotify origin base64 fetch env ?m q = (RelayPage res tgt msg, m2, calls)"
      by (auto split: prod.splits)
    then show ?thesis by (rule callback_spotify_relay)
  next
    assume "rq = CallbackGoogle q fetch"
    with assms(5) obtain calls where
      "callback_google origin fetch env ?m q = (RelayPage res tgt msg, m2, calls)"
      by (auto split: prod.splits)
    then show ?thesis by (rule callback_google_relay)
  qed
  then obtain txn r where txn: "?m s = Some txn" "query_toString (redirect txn) = Some r"
      "origin r = Some tgt"
    using assms(3) by auto
  have "?m s = m1 s \<or> ?m s = None"
    using assms(2) by (rule serve_store)
  with txn(1) stored have "txn = \<lparr> redirect = q0 ''redirect'' \<rparr>" by auto
  with txn(2,3) show ?thesis by simp
qed

text \<open>
  Claim C1, evaluated on the code. A callback with a state of the store and an \<open>error\<close>
  parameter that is a string (not empty) renders the relay page, for Spotify and for
  Google alike; the template's own \<open>postMessage\<close> is given the stored origin, but the
  text of the \<open>error\<close> parameter stands in the page as it came, unescaped, in the
  paragraph (and in the script, inside \<open>JSON.stringify(result)\<close>). Markup in that
  parameter is markup of the page: a \<open>script\<close> element in it runs in the page and calls
  \<open>postMessage\<close> with a target of its own.
\<close>

theorem relay_page_splices_error:
  assumes "q ''state'' = Some (QStr s)" and "s \<noteq> []" and "m s = Some txn"
    and "q ''error'' = Some (QStr e)" and "e \<noteq> []"
    and "query_toString (redirect txn) = Some r" and "origin r = Some tgt"
  shows "callback_spotify origin base64 fetch env m q =
           (RelayPage (ErrorResult ''spotify'' (JStr e)) tgt (AuthenticationFailed (JStr e)), m(s := None), [])
       \<and> callback_google origin fetch env m q =
           (RelayPage (ErrorResult ''google'' (JStr e)) tgt (AuthenticationFailed (JStr e)), m(s := None), [])
       \<and> sent_text stringify num (fst (callback_spotify origin base64 fetch env m q)) =
           Some (join [CHR 0x0A]
             [[],
              ''          <html>'',
              ''              <head><title>Authentication Complete</title></head>'',
              ''              <body>'',
              ''                  <p>Authentication failed: '' @ e @ '' You can close this window now.</p>'',
              ''                  '' @ relay_script (stringify (ErrorResult ''spotify'' (JStr e))) tgt,
              ''              </body>'',
              ''          </html>'',
              ''      ''])
       \<and> sent_text stringify num (fst (callback_google origin fetch env m q)) =
           Some (join [CHR 0x0A]
             [[],
              ''          <html>'',
              ''              <head><title>Authentication Complete</title></head>'',
              ''              <body>'',
              ''                  <p>Authentication failed: '' @ e @ '' You can close this window now.</p>'',
              ''                  '' @ relay_script (stringify (ErrorResult ''google'' (JStr e))) tgt,
              ''              </body>'',
              ''          </html>'',
              ''      ''])"
proof -
  have sp: "callback_spotify origin base64 fetch env m q =
      (RelayPage (ErrorResult ''spotify'' (JStr e)) tgt (AuthenticationFailed (JStr e)), m(s := None), [])"
    using assms by (simp add: callback_spotify_def finish_def js_or_def Let_def)
  have go: "callback_google origin fetch env m q =
      (RelayPage (ErrorResult ''google'' (JStr e)) tgt (AuthenticationFailed (JStr e)), m(s := None), [])"
    using assms by (simp add: callback_google_def finish_def js_or_def Let_def)
  show ?thesis
    unfolding sp go by (simp add: relay_page_def)
qed

theorem relay_page_splices_error_witness:
  "callback_google
     (\<lambda>u. if u = ''https://app.example.com/done'' then Some ''https://app.example.com'' else None)
     (\<lambda>r. Rejects) Map.empty
     [''00112233445566778899aabbccddeeff'' \<mapsto> \<lparr> redirect = Some (QStr ''https://app.example.com/done'') \<rparr>]
     (map_of [(''state'', QStr ''00112233445566778899aabbccddeeff''),
              (''error'', QStr (''<script>window.opener.postMessage(document.title, '' @ [CHR 0x27] @ ''*''
                                 @ [CHR 0x27] @ '')</script>''))])
   = (RelayPage
        (ErrorResult ''google''
           (JStr (''<script>window.opener.postMessage(document.title, '' @ [CHR 0x27] @ ''*''
                   @ [CHR 0x27] @ '')</script>'')))
        ''https://app.example.com''
        (AuthenticationFailed
           (JStr (''<script>window.opener.postMessage(document.title, '' @ [CHR 0x27] @ ''*''
                   @ [CHR 0x27] @ '')</script>''))),
      Map.empty, [])
 \<and> sent_text (\<lambda>r. ''{}'') (\<lambda>n. ''0'')
      (fst (callback_spotify
         (\<lambda>u. if u = ''https://app.example.com/done'' then Some ''https://app.example.com'' else None)
         id (\<lambda>r. Rejects) Map.empty
         [''00112233445566778899aabbccddeeff'' \<mapsto> \<lparr> redirect = Some (QStr ''https://app.example.com/done'') \<rparr>]
         (map_of [(''state'', QStr ''00112233445566778899aabbccddeeff''),
                  (''error'', QStr (''<script>window.opener.postMessage(document.title, '' @ [CHR 0x27] @ ''*''
                                     @ [CHR 0x27] @ '')</script>''))])))
   = Some (join [CHR 0x0A]
        [[],
         ''          <html>'',
         ''              <head><title>Authentication Complete</title></head>'',
         ''              <body>'',
         ''                  <p>Authentication failed: <script>window.opener.postMessage(document.title, ''
            @ [CHR 0x27] @ ''*'' @ [CHR 0x27] @ '')</script> You can close this window now.</p>'',
         ''                  '' @ relay_script ''{}'' ''https://app.example.com'',
         ''              </body>'',
         ''          </html>'',
         ''      ''])"
proof -
  let ?e = "''<script>window.opener.postMessage(document.title, '' @ [CHR 0x27] @ ''*'' @ [CHR 0x27] @ '')</script>''"
  let ?q = "map_of [(''state'', QStr ''00112233445566778899aabbccddeeff''), (''error'', QStr ?e)]"
  let ?txn = "\<lparr> redirect = Some (QStr ''https://app.example.com/done'') \<rparr>"
  let ?m = "[''00112233445566778899aabbccddeeff'' \<mapsto> ?txn]"
  let ?origin = "\<lambda>u. if u = ''https://app.example.com/done'' then Some ''https://app.example.com'' else None"
  have h: "?q ''state'' = Some (QStr ''00112233445566778899aabbccddeeff'')"
      "''00112233445566778899aabbccddeeff'' \<noteq> []"
      "?m ''00112233445566778899aabbccddeeff'' = Some ?txn"
      "?q ''error'' = Some (QStr ?e)" "?e \<noteq> []"
      "query_toString (redirect ?txn) = Some ''https://app.example.com/done''"
      "?origin ''https://app.example.com/done'' = Some ''https://app.example.com''"
    by simp_all
  show ?thesis
    using relay_page_splices_error
            [where q = ?q and s = "''00112233445566778899aabbccddeeff''" and m = ?m and txn = ?txn
               and e = ?e and r = "''https://app.example.com/done''" and origin = ?origin
               and tgt = "''https://app.example.com''" and ?base64.0 = id and fetch = "\<lambda>r. Rejects"
               and env = Map.empty and stringify = "\<lambda>r. ''{}''" and num = "\<lambda>n. ''0''", OF h]
    by (simp add: relay_page_def)
qed

section \<open>Facts about the token exchange and the callbacks\<close>

lemma get_prop_opt_prop:
  "data \<noteq> JNull \<Longrightarrow> data \<noteq> JUndefined \<Longrightarrow> get_prop data name = Some (opt_prop data name)"
  by (cases "(data, name)" rule: get_prop.cases) (auto simp: opt_prop_def split: option.splits)

lemma opt_prop_error:
  "opt_prop (JObj [(''error'', e)]) ''error'' = e"
  "opt_prop (JObj [(''error'', e)]) ''access_token'' = JUndefined"
  by (simp_all add: opt_prop_def)

lemma truthy_js_or: "truthy b \<Longrightarrow> truthy (js_or a b)"
  by (simp add: js_or_def)

lemma callback_spotify_requests:
  "snd (snd (callback_spotify origin base64 fetch env m q)) = []
   \<or> snd (snd (callback_spotify origin base64 fetch env m q)) = fst (exchangeSpotify base64 fetch env (q ''code''))"
  by (auto simp: callback_spotify_def Let_def split: prod.splits option.splits)

lemma callback_google_requests:
  "snd (snd (callback_google origin fetch env m q)) = []
   \<or> snd (snd (callback_google origin fetch env m q)) = fst (exchangeGoogle fetch env (q ''code''))"
  by (auto simp: callback_google_def Let_def split: prod.splits option.splits)

text \<open>
  Claim C6, evaluated on the code. For a \<open>code\<close> that has a string form, \<open>exchangeSpotify\<close>
  calls \<open>fetch\<close> once, with a POST to Spotify's token endpoint that carries the form fields
  \<open>grant_type=authorization_code\<close>, \<open>code\<close> and \<open>redirect_uri\<close> and the header
  \<open>Authorization: Basic base64(clientId:clientSecret)\<close>, and no client id or secret among
  its form fields; what the helper returns is what \<open>fetch\<close> answers to that very request.
  \<open>exchangeGoogle\<close> calls \<open>fetch\<close> once, with a POST to Google's token endpoint that
  carries the same three form fields and \<open>client_id\<close> and \<open>client_secret\<close> besides, and no
  \<open>Authorization\<close> header. A callback sends no other request than that of its helper.
  For a \<open>code\<close> that has no string form (\<open>?code[toString]=x\<close>) the helper throws while it
  builds the form, before \<open>fetch\<close> is called: no POST is sent.
\<close>

theorem exchange_requests:
  "(\<forall>c. query_toString code = Some c \<longrightarrow>
      (let req =
         \<lparr> url = ''https://accounts.spotify.com/api/token'', http_method = ''POST'',
           headers =
             [(''Content-Type'', ''application/x-www-form-urlencoded''),
              (''Authorization'', ''Basic '' @
                 base64 (js_str (env ''SPOTIFY_CLIENT_ID'') @ '':'' @ js_str (env ''SPOTIFY_CLIENT_SECRET'')))],
           body =
             [(''grant_type'', ''authorization_code''),
              (''code'', c),
              (''redirect_uri'', js_str (env ''SPOTIFY_REDIRECT_URI''))] \<rparr>
       in fst (exchangeSpotify base64 fetch env code) = [req]
        \<and> (fetch req = Rejects \<longrightarrow> snd (exchangeSpotify base64 fetch env code) = None)
        \<and> (\<forall>st data. fetch req = Responds st (Some data) \<and> ok st \<longrightarrow>
              snd (exchangeSpotify base64 fetch env code) = Some data)
        \<and> map_of (body req) ''client_id'' = None
        \<and> map_of (body req) ''client_secret'' = None)
    \<and> (let req =
         \<lparr> url = ''https://oauth2.googleapis.com/token'', http_method = ''POST'',
           headers = [(''Content-Type'', ''application/x-www-form-urlencoded'')],
           body =
             [(''grant_type'', ''authorization_code''),
              (''code'', c),
              (''client_id'', js_str (env ''GOOGLE_CLIENT_ID'')),
              (''client_secret'', js_str (env ''GOOGLE_CLIENT_SECRET'')),
              (''redirect_uri'', js_str (env ''GOOGLE_REDIRECT_URI''))] \<rparr>
       in fst (exchangeGoogle fetch env code) = [req]
        \<and> (fetch req = Rejects \<longrightarrow> snd (exchangeGoogle fetch env code) = None)
        \<and> (\<forall>st data. fetch req = Responds st (Some data) \<and> ok st \<longrightarrow>
              snd (exchangeGoogle fetch env code) = Some data)
        \<and> map_of (headers req) ''Authorization'' = None))
 \<and> (query_toString code = None \<longrightarrow>
      exchangeSpotify base64 fetch env code = ([], None)
    \<and> exchangeGoogle fetch env code = ([], None))
 \<and> (snd (snd (callback_spotify origin base64 fetch env m q)) = []
      \<or> snd (snd (callback_spotify origin base64 fetch env m q)) = fst (exchangeSpotify base64 fetch env (q ''code'')))
 \<and> (snd (snd (callback_google origin fetch env m q)) = []
      \<or> snd (snd (callback_google origin fetch env m q)) = fst (exchangeGoogle fetch env (q ''code'')))"
proof (intro conjI)
  show "snd (snd (callback_spotify origin base64 fetch env m q)) = []
      \<or> snd (snd (callback_spotify origin base64 fetch env m q)) = fst (exchangeSpotify base64 fetch env (q ''code''))"
    by (rule callback_spotify_requests)
  show "snd (snd (callback_google origin fetch env m q)) = []
      \<or> snd (snd (callback_google origin fetch env m q)) = fst (exchangeGoogle fetch env (q ''code''))"
    by (rule callback_google_requests)
qed (auto simp: exchangeSpotify_def exchangeGoogle_def do_fetch_def Let_def cfg_spotify_def cfg_google_def
       split: fetch_result.splits option.splits prod.splits)

theorem exchange_requests_witness:
  "exchangeSpotify id
     (\<lambda>r. if r =
         \<lparr> url = ''https://accounts.spotify.com/api/token'', http_method = ''POST'',
           headers =
             [(''Content-Type'', ''application/x-www-form-urlencoded''),
              (''Authorization'', ''Basic id-1:s3cret'')],
           body =
             [(''grant_type'', ''authorization_code''), (''code'', ''abc''), (''redirect_uri'', ''undefined'')] \<rparr>
       then Responds 200 (Some (JObj [(''access_token'', JStr ''tok'')])) else Rejects)
     (map_of [(''SPOTIFY_CLIENT_ID'', ''id-1''), (''SPOTIFY_CLIENT_SECRET'', ''s3cret'')])
     (Some (QStr ''abc''))
   = ([\<lparr> url = ''https://accounts.spotify.com/api/token'', http_method = ''POST'',
         headers =
           [(''Content-Type'', ''application/x-www-form-urlencoded''),
            (''Authorization'', ''Basic id-1:s3cret'')],
         body =
           [(''grant_type'', ''authorization_code''), (''code'', ''abc''), (''redirect_uri'', ''undefined'')] \<rparr>],
      Some (JObj [(''access_token'', JStr ''tok'')]))
 \<and> query_toString (Some (QObj [(''toString'', QStr ''x'')])) = None
 \<and> exchangeSpotify id (\<lambda>r. Responds 200 (Some (JObj [(''access_token'', JStr ''tok'')]))) Map.empty
       (Some (QObj [(''toString'', QStr ''x'')]))
   = ([], None)
 \<and> exchangeGoogle (\<lambda>r. Responds 200 (Some (JObj [(''access_token'', JStr ''tok'')]))) Map.empty
       (Some (QObj [(''toString'', QStr ''x'')]))
   = ([], None)"
proof -
  let ?req = "\<lparr> url = ''https://accounts.spotify.com/api/token'', http_method = ''POST'',
           headers =
             [(''Content-Type'', ''application/x-www-form-urlencoded''),
              (''Authorization'', ''Basic id-1:s3cret'')],
           body =
             [(''grant_type'', ''authorization_code''), (''code'', ''abc''), (''redirect_uri'', ''undefined'')] \<rparr>"
  let ?fetch = "\<lambda>r. if r = ?req then Responds 200 (Some (JObj [(''access_token'', JStr ''tok'')])) else Rejects"
  let ?env = "map_of [(''SPOTIFY_CLIENT_ID'', ''id-1''), (''SPOTIFY_CLIENT_SECRET'', ''s3cret'')]"
  have "fst (exchangeSpotify id ?fetch ?env (Some (QStr ''abc''))) = [?req]
      \<and> snd (exchangeSpotify id ?fetch ?env (Some (QStr ''abc''))) = Some (JObj [(''access_token'', JStr ''tok'')])"
    using exchange_requests[where code = "Some (QStr ''abc'')" and env = ?env and ?base64.0 = id and fetch = ?fetch]
    by (simp add: Let_def ok_def)
  then have first: "exchangeSpotify id ?fetch ?env (Some (QStr ''abc''))
      = ([?req], Some (JObj [(''access_token'', JStr ''tok'')]))"
    by (simp add: prod_eq_iff)
  have "exchangeSpotify id (\<lambda>r. Responds 200 (Some (JObj [(''access_token'', JStr ''tok'')]))) Map.empty
          (Some (QObj [(''toString'', QStr ''x'')])) = ([], None)
      \<and> exchangeGoogle (\<lambda>r. Responds 200 (Some (JObj [(''access_token'', JStr ''tok'')]))) Map.empty
          (Some (QObj [(''toString'', QStr ''x'')])) = ([], None)"
    using exchange_requests[where code = "Some (QObj [(''toString'', QStr ''x'')])" and env = Map.empty
            and ?base64.0 = id
            and fetch = "\<lambda>r. Responds 200 (Some (JObj [(''access_token'', JStr ''tok'')]))"]
    by simp
  with first show ?thesis by simp
qed

lemma finish_token:
  assumes "fst (finish origin m state data provider isError) = RelayPage (TokenResult p t) tgt msg"
  shows "\<not> isError \<and> get_prop data ''access_token'' = Some t"
  using assms by (auto simp: finish_def Let_def split: option.splits if_splits)

lemma callback_spotify_token:
  assumes "fst (callback_spotify origin base64 fetch env m q) = RelayPage (TokenResult p t) tgt msg"
  shows "truthy t \<and> (\<exists>tokens. snd (exchangeSpotify base64 fetch env (q ''code'')) = Some tokens
                         \<and> get_prop tokens ''access_token'' = Some t)"
  using assms
  by (auto simp: callback_spotify_def Let_def split_beta split: option.splits if_splits dest!: finish_token)

lemma callback_google_token:
  assumes "fst (callback_google origin fetch env m q) = RelayPage (TokenResult p t) tgt msg"
  shows "truthy t \<and> (\<exists>tokens. snd (exchangeGoogle fetch env (q ''code'')) = Some tokens
                         \<and> get_prop tokens ''access_token'' = Some t)"
  using assms
  by (auto simp: callback_google_def Let_def split_beta split: option.splits if_splits dest!: finish_token)

lemma callback_spotify_exchanged:
  assumes "truthy_q (q ''state'')" "\<not> truthy_q (q ''error'')" "truthy_q (q ''code'')"
    and "snd (exchangeSpotify base64 fetch env (q ''code'')) = Some tokens"
    and "tokens \<noteq> JNull" "tokens \<noteq> JUndefined"
  shows "callback_spotify origin base64 fetch env m q =
           (if truthy (opt_prop tokens ''error'') \<or> \<not> truthy (opt_prop tokens ''access_token'')
            then (fst (finish origin m (q ''state'') (JObj [(''error'', opt_prop tokens ''error'')]) ''spotify'' True),
                  snd (finish origin m (q ''state'') (JObj [(''error'', opt_prop tokens ''error'')]) ''spotify'' True),
                  fst (exchangeSpotify base64 fetch env (q ''code'')))
            else (fst (finish origin m (q ''state'') tokens ''spotify'' False),
                  snd (finish origin m (q ''state'') tokens ''spotify'' False),
                  fst (exchangeSpotify base64 fetch env (q ''code''))))"
  using assms get_prop_opt_prop[of tokens]
  by (cases "exchangeSpotify base64 fetch env (q ''code'')")
     (simp add: callback_spotify_def Let_def split_beta)

lemma callback_google_exchanged:
  assumes "truthy_q (q ''state'')" "\<not> truthy_q (q ''error'')" "truthy_q (q ''code'')"
    and "snd (exchangeGoogle fetch env (q ''code'')) = Some tokens"
    and "tokens \<noteq> JNull" "tokens \<noteq> JUndefined"
  shows "callback_google origin fetch env m q =
           (if truthy (opt_prop tokens ''error'') \<or> \<not> truthy (opt_prop tokens ''access_token'')
            then (fst (finish origin m (q ''state'') (JObj [(''error'', opt_prop tokens ''error'')]) ''google'' True),
                  snd (finish origin m (q ''state'') (JObj [(''error'', opt_prop tokens ''error'')]) ''google'' True),
                  fst (exchangeGoogle fetch env (q ''code'')))
            else (fst (finish origin m (q ''state'') tokens ''google'' False),
                  snd (finish origin m (q ''state'') tokens ''google'' False),
                  fst (exchangeGoogle fetch env (q ''code''))))"
  using assms get_prop_opt_prop[of tokens]
  by (cases "exchangeGoogle fetch env (q ''code'')")
     (simp add: callback_google_def Let_def split_beta)

lemma callback_spotify_calls:
  "truthy_q (q ''state'') \<Longrightarrow> \<not> truthy_q (q ''error'') \<Longrightarrow> truthy_q (q ''code'') \<Longrightarrow>
     snd (snd (callback_spotify origin base64 fetch env m q)) = fst (exchangeSpotify base64 fetch env (q ''code''))"
  by (auto simp: callback_spotify_def Let_def split: prod.splits option.splits)

lemma callback_google_calls:
  "truthy_q (q ''state'') \<Longrightarrow> \<not> truthy_q (q ''error'') \<Longrightarrow> truthy_q (q ''code'') \<Longrightarrow>
     snd (snd (callback_google origin fetch env m q)) = fst (exchangeGoogle fetch env (q ''code''))"
  by (auto simp: callback_google_def Let_def split: prod.splits option.splits)

lemma exchange_one_request:
  "query_toString code = Some c \<Longrightarrow>
     length (fst (exchangeSpotify base64 fetch env code)) = 1
   \<and> length (fst (exchangeGoogle fetch env code)) = 1"
  by (auto simp: exchangeSpotify_def exchangeGoogle_def do_fetch_def split: fetch_result.splits option.splits)

text \<open>
  Claim C3, as the code has it. The handlers test their parameters for truthiness, so an
  empty \<open>state\<close>, \<open>error\<close> or \<open>code\<close> counts as absent. For \<open>/callback/spotify\<close> and
  \<open>/callback/google\<close>: with \<open>state\<close> absent or empty the answer is 400, the store is
  untouched and nothing is sent; with \<open>error\<close> present and not empty, \<open>finish\<close> runs with
  \<open>isError = true\<close> on that error and nothing is sent; otherwise, with \<open>code\<close> absent or
  empty, \<open>finish\<close> runs with \<open>isError = true\<close> on a fixed message and nothing is sent;
  otherwise the exchange helper is called, once (what the callback sends is what that one
  call sends: one request when \<open>code\<close> has a string form), and when it returns an object
  \<open>finish\<close> runs as a success if that object has a truthy \<open>access_token\<close> and no truthy
  \<open>error\<close>, and with \<open>isError = true\<close> if not. A page that relays a token relays a truthy
  \<open>access_token\<close> that the helper returned.
\<close>

theorem callback_flow:
  "(\<not> truthy_q (q ''state'') \<longrightarrow>
      callback_spotify origin base64 fetch env m q = (Send 400 ''Missing state from Spotify callback.'', m, [])
    \<and> callback_google origin fetch env m q = (Send 400 ''Missing state from Google callback.'', m, []))
 \<and> (truthy_q (q ''state'') \<and> truthy_q (q ''error'') \<longrightarrow>
      callback_spotify origin base64 fetch env m q =
        (fst (finish origin m (q ''state'') (JObj [(''error'', jsval_of_query (q ''error''))]) ''spotify'' True),
         snd (finish origin m (q ''state'') (JObj [(''error'', jsval_of_query (q ''error''))]) ''spotify'' True), [])
    \<and> callback_google origin fetch env m q =
        (fst (finish origin m (q ''state'') (JObj [(''error'', jsval_of_query (q ''error''))]) ''google'' True),
         snd (finish origin m (q ''state'') (JObj [(''error'', jsval_of_query (q ''error''))]) ''google'' True), []))
 \<and> (truthy_q (q ''state'') \<and> \<not> truthy_q (q ''error'') \<and> \<not> truthy_q (q ''code'') \<longrightarrow>
      callback_spotify origin base64 fetch env m q =
        (fst (finish origin m (q ''state'') (JObj [(''error'', JStr ''Missing code from Spotify callback.'')]) ''spotify'' True),
         snd (finish origin m (q ''state'') (JObj [(''error'', JStr ''Missing code from Spotify callback.'')]) ''spotify'' True), [])
    \<and> callback_google origin fetch env m q =
        (fst (finish origin m (q ''state'') (JObj [(''error'', JStr ''Missing code from Google callback.'')]) ''google'' True),
         snd (finish origin m (q ''state'') (JObj [(''error'', JStr ''Missing code from Google callback.'')]) ''google'' True), []))
 \<and> (truthy_q (q ''state'') \<and> \<not> truthy_q (q ''error'') \<and> truthy_q (q ''code'') \<longrightarrow>
      snd (snd (callback_spotify origin base64 fetch env m q)) = fst (exchangeSpotify base64 fetch env (q ''code''))
    \<and> snd (snd (callback_google origin fetch env m q)) = fst (exchangeGoogle fetch env (q ''code''))
    \<and> (\<forall>c. query_toString (q ''code'') = Some c \<longrightarrow>
          length (snd (snd (callback_spotify origin base64 fetch env m q))) = 1
        \<and> length (snd (snd (callback_google origin fetch env m q))) = 1)
    \<and> (\<forall>tokens. snd (exchangeSpotify base64 fetch env (q ''code'')) = Some tokens
          \<and> tokens \<noteq> JNull \<and> tokens \<noteq> JUndefined \<longrightarrow>
          callback_spotify origin base64 fetch env m q =
            (if truthy (opt_prop tokens ''error'') \<or> \<not> truthy (opt_prop tokens ''access_token'')
             then (fst (finish origin m (q ''state'') (JObj [(''error'', opt_prop tokens ''error'')]) ''spotify'' True),
                   snd (finish origin m (q ''state'') (JObj [(''error'', opt_prop tokens ''error'')]) ''spotify'' True),
                   fst (exchangeSpotify base64 fetch env (q ''code'')))
             else (fst (finish origin m (q ''state'') tokens ''spotify'' False),
                   snd (finish origin m (q ''state'') tokens ''spotify'' False),
                   fst (exchangeSpotify base64 fetch env (q ''code'')))))
    \<and> (\<forall>tokens. snd (exchangeGoogle fetch env (q ''code'')) = Some tokens
          \<and> tokens \<noteq> JNull \<and> tokens \<noteq> JUndefined \<longrightarrow>
          callback_google origin fetch env m q =
            (if truthy (opt_prop tokens ''error'') \<or> \<not> truthy (opt_prop tokens ''access_token'')
             then (fst (finish origin m (q ''state'') (JObj [(''error'', opt_prop tokens ''error'')]) ''google'' True),
                   snd (finish origin m (q ''state'') (JObj [(''error'', opt_prop tokens ''error'')]) ''google'' True),
                   fst (exchangeGoogle fetch env (q ''code'')))
             else (fst (finish origin m (q ''state'') tokens ''google'' False),
                   snd (finish origin m (q ''state'') tokens ''google'' False),
                   fst (exchangeGoogle fetch env (q ''code''))))))
 \<and> (\<forall>p t tgt msg. fst (callback_spotify origin base64 fetch env m q) = RelayPage (TokenResult p t) tgt msg \<longrightarrow>
        truthy t \<and> (\<exists>tokens. snd (exchangeSpotify base64 fetch env (q ''code'')) = Some tokens
                      \<and> get_prop tokens ''access_token'' = Some t))
 \<and> (\<forall>p t tgt msg. fst (callback_google origin fetch env m q) = RelayPage (TokenResult p t) tgt msg \<longrightarrow>
        truthy t \<and> (\<exists>tokens. snd (exchangeGoogle fetch env (q ''code'')) = Some tokens
                      \<and> get_prop tokens ''access_token'' = Some t))"
proof -
  have missing: "\<not> truthy_q (q ''state'') \<Longrightarrow>
      callback_spotify origin base64 fetch env m q = (Send 400 ''Missing state from Spotify callback.'', m, [])
    \<and> callback_google origin fetch env m q = (Send 400 ''Missing state from Google callback.'', m, [])"
    by (simp add: callback_spotify_def callback_google_def Let_def)
  have denied: "truthy_q (q ''state'') \<Longrightarrow> truthy_q (q ''error'') \<Longrightarrow>
      callback_spotify origin base64 fetch env m q =
        (fst (finish origin m (q ''state'') (JObj [(''error'', jsval_of_query (q ''error''))]) ''spotify'' True),
         snd (finish origin m (q ''state'') (JObj [(''error'', jsval_of_query (q ''error''))]) ''spotify'' True), [])
    \<and> callback_google origin fetch env m q =
        (fst (finish origin m (q ''state'') (JObj [(''error'', jsval_of_query (q ''error''))]) ''google'' True),
         snd (finish origin m (q ''state'') (JObj [(''error'', jsval_of_query (q ''error''))]) ''google'' True), [])"
    by (simp add: callback_spotify_def callback_google_def split_beta Let_def)
  have nocode: "truthy_q (q ''state'') \<Longrightarrow> \<not> truthy_q (q ''error'') \<Longrightarrow> \<not> truthy_q (q ''code'') \<Longrightarrow>
      callback_spotify origin base64 fetch env m q =
        (fst (finish origin m (q ''state'') (JObj [(''error'', JStr ''Missing code from Spotify callback.'')]) ''spotify'' True),
         snd (finish origin m (q ''state'') (JObj [(''error'', JStr ''Missing code from Spotify callback.'')]) ''spotify'' True), [])
    \<and> callback_google origin fetch env m q =
        (fst (finish origin m (q ''state'') (JObj [(''error'', JStr ''Missing code from Google callback.'')]) ''google'' True),
         snd (finish origin m (q ''state'') (JObj [(''error'', JStr ''Missing code from Google callback.'')]) ''google'' True), [])"
    by (simp add: callback_spotify_def callback_google_def split_beta Let_def)
  have one: "truthy_q (q ''state'') \<Longrightarrow> \<not> truthy_q (q ''error'') \<Longrightarrow> truthy_q (q ''code'') \<Longrightarrow>
      query_toString (q ''code'') = Some c \<Longrightarrow>
        length (snd (snd (callback_spotify origin base64 fetch env m q))) = 1
      \<and> length (snd (snd (callback_google origin fetch env m q))) = 1" for c
    using callback_spotify_calls[of q origin base64 fetch env m] callback_google_calls[of q origin fetch env m]
          exchange_one_request[of "q ''code''" c base64 fetch env]
    by simp
  show ?thesis
    using missing denied nocode one
          callback_spotify_calls[of q origin base64 fetch env m] callback_google_calls[of q origin fetch env m]
          callback_spotify_exchanged[of q base64 fetch env _ origin m]
          callback_google_exchanged[of q fetch env _ origin m]
          callback_spotify_token[of origin base64 fetch env m q]
          callback_google_token[of origin fetch env m q]
    by blast
qed

theorem callback_flow_witness:
  "callback_google (\<lambda>u. Some ''https://app.example.com'') (\<lambda>r. Rejects) Map.empty
     [''00112233445566778899aabbccddeeff'' \<mapsto> \<lparr> redirect = Some (QStr ''https://app.example.com/done'') \<rparr>]
     (map_of [(''state'', QStr ''00112233445566778899aabbccddeeff''), (''error'', QStr ''access_denied''),
              (''code'', QStr ''abc'')])
   = (RelayPage (ErrorResult ''google'' (JStr ''access_denied'')) ''https://app.example.com''
        (AuthenticationFailed (JStr ''access_denied'')),
      Map.empty, [])"
  using callback_flow
          [where q = "map_of [(''state'', QStr ''00112233445566778899aabbccddeeff''), (''error'', QStr ''access_denied''),
                       (''code'', QStr ''abc'')]"
             and origin = "\<lambda>u. Some ''https://app.example.com''" and ?base64.0 = id and fetch = "\<lambda>r. Rejects"
             and env = Map.empty
             and m = "[''00112233445566778899aabbccddeeff'' \<mapsto> \<lparr> redirect = Some (QStr ''https://app.example.com/done'') \<rparr>]"]
  by (simp add: finish_def js_or_def Let_def)

text \<open>
  Claim C3 as it is stated fails where a parameter is present and empty: with
  \<open>error=\<close> (present, the empty string) and a \<open>code\<close>, the handler does exchange the
  code, and here it finishes as a success.
\<close>

theorem callback_empty_error_counterexample:
  "map_of [(''state'', QStr ''00112233445566778899aabbccddeeff''), (''error'', QStr ''''), (''code'', QStr ''abc'')]
     ''error'' = Some (QStr '''')
 \<and> callback_spotify (\<lambda>u. Some ''https://app.example.com'') id
       (\<lambda>r. Responds 200 (Some (JObj [(''access_token'', JStr ''tok'')]))) Map.empty
       [''00112233445566778899aabbccddeeff'' \<mapsto> \<lparr> redirect = Some (QStr ''https://app.example.com/done'') \<rparr>]
       (map_of [(''state'', QStr ''00112233445566778899aabbccddeeff''), (''error'', QStr ''''), (''code'', QStr ''abc'')])
   = (RelayPage (TokenResult ''spotify'' (JStr ''tok'')) ''https://app.example.com'' AuthenticationSuccessful,
      Map.empty,
      [\<lparr> url = ''https://accounts.spotify.com/api/token'', http_method = ''POST'',
         headers =
           [(''Content-Type'', ''application/x-www-form-urlencoded''),
            (''Authorization'', ''Basic undefined:undefined'')],
         body =
           [(''grant_type'', ''authorization_code''), (''code'', ''abc''), (''redirect_uri'', ''undefined'')] \<rparr>])"
  by (simp add: callback_spotify_def exchangeSpotify_def do_fetch_def finish_def ok_def Let_def cfg_spotify_def)

text \<open>
  What claim C7 says holds where the token endpoint answers a status outside 200 to 299
  with a JSON body other than \<open>null\<close>: the helper returns \<open>{error: E}\<close>, where \<open>E\<close> is the
  body's \<open>error_description\<close> if that is truthy, else its \<open>error\<close> if that is truthy, else
  the helper's generic message; the entry is deleted from the store; and the relay
  page, rendered when the stored redirect parses as a URL and \<open>E\<close> has a string form,
  reports failure with \<open>E\<close>.
\<close>

lemma exchange_failure_json:
  assumes "q ''state'' = Some (QStr s)" and "m s = Some txn"
    and "\<not> truthy_q (q ''error'')" and "truthy_q (q ''code'')"
    and "\<not> ok st" and "data \<noteq> JNull" and "data \<noteq> JUndefined"
    and "s \<noteq> []"
    and "\<forall>req. fetch req = Responds st (Some data)"
    and "query_toString (q ''code'') = Some c"
    and "E = js_or (opt_prop data ''error_description'')
               (js_or (opt_prop data ''error'') (JStr ''Failed to exchange token with Spotify''))"
  shows "snd (exchangeSpotify base64 fetch env (q ''code'')) = Some (JObj [(''error'', E)])
       \<and> fst (snd (callback_spotify origin base64 fetch env m q)) = m(s := None)
       \<and> fst (callback_spotify origin base64 fetch env m q) =
           (case query_toString (redirect txn) of
              None \<Rightarrow> Throws
            | Some r \<Rightarrow>
                (case origin r of
                   None \<Rightarrow> Throws
                 | Some targetOrigin \<Rightarrow>
                     if stringable E
                     then RelayPage (ErrorResult ''spotify'' E) targetOrigin (AuthenticationFailed E)
                     else Throws))"
proof -
  have E: "truthy E" using assms(11) by (simp add: truthy_js_or)
  have ex: "snd (exchangeSpotify base64 fetch env (q ''code'')) = Some (JObj [(''error'', E)])"
    using assms(5-7,9-11) get_prop_opt_prop[of data]
    by (simp add: exchangeSpotify_def do_fetch_def Let_def)
  have cb: "callback_spotify origin base64 fetch env m q =
          (fst (finish origin m (q ''state'') (JObj [(''error'', E)]) ''spotify'' True),
           snd (finish origin m (q ''state'') (JObj [(''error'', E)]) ''spotify'' True),
           fst (exchangeSpotify base64 fetch env (q ''code'')))"
    using callback_spotify_exchanged[OF _ assms(3,4) ex, of origin m] assms(1,8) E
    by (simp add: opt_prop_error)
  show ?thesis
    using ex assms(1,2) E unfolding cb
    by (simp add: finish_def Let_def js_or_def split: option.splits)
qed

lemma exchange_failure_json_google:
  assumes "q ''state'' = Some (QStr s)" and "m s = Some txn"
    and "\<not> truthy_q (q ''error'')" and "truthy_q (q ''code'')"
    and "\<not> ok st" and "data \<noteq> JNull" and "data \<noteq> JUndefined"
    and "s \<noteq> []"
    and "\<forall>req. fetch req = Responds st (Some data)"
    and "query_toString (q ''code'') = Some c"
    and "E = js_or (opt_prop data ''error_description'')
               (js_or (opt_prop data ''error'') (JStr ''Failed to exchange token with Google''))"
  shows "snd (exchangeGoogle fetch env (q ''code'')) = Some (JObj [(''error'', E)])
       \<and> fst (snd (callback_google origin fetch env m q)) = m(s := None)
       \<and> fst (callback_google origin fetch env m q) =
           (case query_toString (redirect txn) of
              None \<Rightarrow> Throws
            | Some r \<Rightarrow>
                (case origin r of
                   None \<Rightarrow> Throws
                 | Some targetOrigin \<Rightarrow>
                     if stringable E
                     then RelayPage (ErrorResult ''google'' E) targetOrigin (AuthenticationFailed E)
                     else Throws))"
proof -
  have E: "truthy E" using assms(11) by (simp add: truthy_js_or)
  have ex: "snd (exchangeGoogle fetch env (q ''code'')) = Some (JObj [(''error'', E)])"
    using assms(5-7,9-11) get_prop_opt_prop[of data]
    by (simp add: exchangeGoogle_def do_fetch_def Let_def)
  have cb: "callback_google origin fetch env m q =
          (fst (finish origin m (q ''state'') (JObj [(''error'', E)]) ''google'' True),
           snd (finish origin m (q ''state'') (JObj [(''error'', E)]) ''google'' True),
           fst (exchangeGoogle fetch env (q ''code'')))"
    using callback_google_exchanged[OF _ assms(3,4) ex, of origin m] assms(1,8) E
    by (simp add: opt_prop_error)
  show ?thesis
    using ex assms(1,2) E unfolding cb
    by (simp add: finish_def Let_def js_or_def split: option.splits)
qed

text \<open>
  Claim C7, evaluated on the code. The helpers read the body with \<open>r.json()\<close> before they
  look at \<open>r.ok\<close>, and the callbacks have no \<open>try\<close>. When the token endpoint answers with
  a body that is not JSON, whatever the status, the helper throws and so does the
  callback: \<open>finish\<close> does not run, no relay page is written and no failure is reported
  to the opener.
\<close>

theorem exchange_non_json_throws:
  assumes "truthy_q (q ''state'')" and "\<not> truthy_q (q ''error'')" and "truthy_q (q ''code'')"
    and "\<forall>req. fetch req = Responds st None"
  shows "snd (exchangeSpotify base64 fetch env (q ''code'')) = None
       \<and> snd (exchangeGoogle fetch env (q ''code'')) = None
       \<and> fst (callback_spotify origin base64 fetch env m q) = Throws
       \<and> fst (callback_google origin fetch env m q) = Throws"
proof -
  have sp: "snd (exchangeSpotify base64 fetch env (q ''code'')) = None"
    using assms(4) by (simp add: exchangeSpotify_def do_fetch_def split: option.splits)
  have go: "snd (exchangeGoogle fetch env (q ''code'')) = None"
    using assms(4) by (simp add: exchangeGoogle_def do_fetch_def split: option.splits)
  have "fst (callback_spotify origin base64 fetch env m q) = Throws"
    using assms(1-3) sp by (simp add: callback_spotify_def Let_def split_beta)
  moreover have "fst (callback_google origin fetch env m q) = Throws"
    using assms(1-3) go by (simp add: callback_google_def Let_def split_beta)
  ultimately show ?thesis using sp go by simp
qed

theorem exchange_non_json_throws_witness:
  "\<not> ok 502
 \<and> fst (callback_spotify (\<lambda>u. Some ''https://app.example.com'') id (\<lambda>r. Responds 502 None) Map.empty
       [''00112233445566778899aabbccddeeff'' \<mapsto> \<lparr> redirect = Some (QStr ''https://app.example.com/done'') \<rparr>]
       (map_of [(''state'', QStr ''00112233445566778899aabbccddeeff''), (''code'', QStr ''abc'')]))
   = Throws
 \<and> fst (callback_google (\<lambda>u. Some ''https://app.example.com'') (\<lambda>r. Responds 502 None) Map.empty
       [''00112233445566778899aabbccddeeff'' \<mapsto> \<lparr> redirect = Some (QStr ''https://app.example.com/done'') \<rparr>]
       (map_of [(''state'', QStr ''00112233445566778899aabbccddeeff''), (''code'', QStr ''abc'')]))
   = Throws"
  using exchange_non_json_throws
          [where q = "map_of [(''state'', QStr ''00112233445566778899aabbccddeeff''), (''code'', QStr ''abc'')]"
             and fetch = "\<lambda>r. Responds 502 None" and st = 502
             and origin = "\<lambda>u. Some ''https://app.example.com''" and ?base64.0 = id and env = Map.empty
             and m = "[''00112233445566778899aabbccddeeff'' \<mapsto> \<lparr> redirect = Some (QStr ''https://app.example.com/done'') \<rparr>]"]
  by (simp add: ok_def)

text \<open>The same slip on a JSON body: an \<open>error\<close> that is an object with a key \<open>toString\<close>
  makes the message of \<open>finish\<close> throw, after the entry is deleted.\<close>

lemma exchange_error_object_example:
  "callback_spotify (\<lambda>u. Some ''https://app.example.com'') id
     (\<lambda>r. Responds 400 (Some (JObj [(''error'', JObj [(''toString'', JNum 1)])]))) Map.empty
     [''00112233445566778899aabbccddeeff'' \<mapsto> \<lparr> redirect = Some (QStr ''https://app.example.com/done'') \<rparr>]
     (map_of [(''state'', QStr ''00112233445566778899aabbccddeeff''), (''code'', QStr ''abc'')])
   = (Throws, Map.empty,
      [\<lparr> url = ''https://accounts.spotify.com/api/token'', http_method = ''POST'',
         headers =
           [(''Content-Type'', ''application/x-www-form-urlencoded''),
            (''Authorization'', ''Basic undefined:undefined'')],
         body =
           [(''grant_type'', ''authorization_code''), (''code'', ''abc''), (''redirect_uri'', ''undefined'')] \<rparr>])"
  by (simp add: callback_spotify_def exchangeSpotify_def do_fetch_def finish_def ok_def js_or_def Let_def cfg_spotify_def)

section \<open>Facts about the AI endpoints\<close>

lemma genAI_None_iff:
  "genAI env = None \<longleftrightarrow> env ''GEMINI_API_KEY'' = None \<or> env ''GEMINI_API_KEY'' = Some []"
  by (auto simp: genAI_def split: option.splits)

lemma express_json_simps:
  "express_json handler (ParserError st) = ExpressError st"
  "express_json handler (ReqBody b) = handler b"
  by (simp_all add: express_json_def)

text \<open>
  Claim C9, as the code has it. The JSON middleware runs before the three AI routes of
  \<open>src/server.js\<close>: a request whose body it refuses is answered with the status of its
  error (400 for a body that is no JSON), with or without a credential. In the handlers
  the credential check comes first: with no credential configured every request that
  reaches a handler is answered 503, whatever its body is; the answer 400
  "Missing parameters." is given only when a credential is configured; and with no
  credential a status 400 comes from the middleware only.
\<close>

theorem credential_check_after_parser:
  "(genAI env = None \<longrightarrow>
      post_generate_album_cover_prompt ai1 env (ReqBody reqbody) = SendJson 503 (error_body ''AI service not configured.'')
    \<and> post_edit_selfie_into_album_cover str ai2 env (ReqBody reqbody) = SendJson 503 (error_body ''AI service not configured.'')
    \<and> post_generate_playlist_vibe ai3 env (ReqBody reqbody) = SendJson 503 (error_body ''AI service not configured.''))
 \<and> post_generate_album_cover_prompt ai1 env (ParserError st) = ExpressError st
 \<and> post_edit_selfie_into_album_cover str ai2 env (ParserError st) = ExpressError st
 \<and> post_generate_playlist_vibe ai3 env (ParserError st) = ExpressError st
 \<and> (post_generate_album_cover_prompt ai1 env p = SendJson 400 (error_body ''Missing parameters.'') \<longrightarrow> genAI env \<noteq> None)
 \<and> (post_edit_selfie_into_album_cover str ai2 env p = SendJson 400 (error_body ''Missing parameters.'') \<longrightarrow> genAI env \<noteq> None)
 \<and> (post_generate_playlist_vibe ai3 env p = SendJson 400 (error_body ''Missing parameters.'') \<longrightarrow> genAI env \<noteq> None)
 \<and> (status (post_generate_album_cover_prompt ai1 env p) = Some 400 \<and> genAI env = None \<longrightarrow> p = ParserError 400)
 \<and> (status (post_edit_selfie_into_album_cover str ai2 env p) = Some 400 \<and> genAI env = None \<longrightarrow> p = ParserError 400)
 \<and> (status (post_generate_playlist_vibe ai3 env p) = Some 400 \<and> genAI env = None \<longrightarrow> p = ParserError 400)"
proof -
  have a: "genAI env = None \<Longrightarrow>
             generate_album_cover_prompt ai1 env b = SendJson 503 (error_body ''AI service not configured.'')" for b
    by (simp add: generate_album_cover_prompt_def)
  have b: "genAI env = None \<Longrightarrow>
             edit_selfie_into_album_cover str ai2 env b = SendJson 503 (error_body ''AI service not configured.'')" for b
    by (simp add: edit_selfie_into_album_cover_def)
  have c: "genAI env = None \<Longrightarrow>
             generate_playlist_vibe ai3 env b = SendJson 503 (error_body ''AI service not configured.'')" for b
    by (simp add: generate_playlist_vibe_def)
  show ?thesis
  proof (cases "genAI env = None")
    case True
    note abc = a[OF True] b[OF True] c[OF True]
    show ?thesis
      unfolding post_generate_album_cover_prompt_def post_edit_selfie_into_album_cover_def
        post_generate_playlist_vibe_def
      by (cases p) (simp_all add: express_json_simps abc True)
  next
    case False
    then show ?thesis
      unfolding post_generate_album_cover_prompt_def post_edit_selfie_into_album_cover_def
        post_generate_playlist_vibe_def
      by (cases p) (auto simp: express_json_simps)
  qed
qed

theorem credential_check_after_parser_witness:
  "genAI Map.empty = None
 \<and> post_generate_playlist_vibe (\<lambda>mood albumPrompt playlistLength. Some ''{}'') Map.empty (ReqBody (JObj []))
     = SendJson 503 (error_body ''AI service not configured.'')
 \<and> post_generate_album_cover_prompt (\<lambda>imageData imageMimeType mood styles. None) Map.empty (ReqBody (JObj []))
     = SendJson 503 (error_body ''AI service not configured.'')
 \<and> post_edit_selfie_into_album_cover (\<lambda>v. '''') (\<lambda>imageData imageMimeType prompt. Inl ''down'') Map.empty
       (ReqBody (JObj []))
     = SendJson 503 (error_body ''AI service not configured.'')
 \<and> post_generate_playlist_vibe (\<lambda>mood albumPrompt playlistLength. Some ''{}'') Map.empty (ParserError 413)
     = ExpressError 413"
  using credential_check_after_parser
          [where env = Map.empty and ?ai1.0 = "\<lambda>imageData imageMimeType mood styles. None"
             and reqbody = "JObj []" and str = "\<lambda>v. ''''"
             and ?ai2.0 = "\<lambda>imageData imageMimeType prompt. Inl ''down''"
             and ?ai3.0 = "\<lambda>mood albumPrompt playlistLength. Some ''{}''"
             and st = 413]
  by (simp add: genAI_def)

text \<open>
  Claim C9 as it is stated fails for a request whose body the JSON middleware refuses:
  with no credential configured, a \<open>POST /generate-playlist-vibe\<close> whose body is no
  JSON is answered 400, not 503.
\<close>

theorem parser_error_without_credential_counterexample:
  "genAI Map.empty = None
 \<and> post_generate_playlist_vibe (\<lambda>mood albumPrompt playlistLength. Some ''{}'') Map.empty (ParserError 400)
     = ExpressError 400
 \<and> status (post_generate_playlist_vibe (\<lambda>mood albumPrompt playlistLength. Some ''{}'') Map.empty (ParserError 400))
     = Some 400
 \<and> status (post_generate_playlist_vibe (\<lambda>mood albumPrompt playlistLength. Some ''{}'') Map.empty (ParserError 400))
     \<noteq> Some 503"
  by (simp add: genAI_def post_generate_playlist_vibe_def express_json_def)

text \<open>
  Claim C10. The AI endpoints of \<open>src/server.js\<close> test their required fields for
  truthiness: with a credential configured, a request whose body lacks one of the
  required fields or holds a falsy value there (\<open>0\<close>, the empty string, \<open>false\<close>, \<open>null\<close>)
  is answered 400 "Missing parameters."; so is \<open>/generate-playlist-vibe\<close> with
  \<open>playlistLength = 0\<close> or with an empty \<open>mood\<close> or \<open>albumPrompt\<close>.
\<close>

theorem falsy_fields_missing:
  assumes "genAI env \<noteq> None" and "reqbody \<noteq> JNull" and "reqbody \<noteq> JUndefined"
  shows "(\<not> truthy (opt_prop reqbody ''mood'') \<or> \<not> truthy (opt_prop reqbody ''albumPrompt'')
          \<or> \<not> truthy (opt_prop reqbody ''playlistLength'') \<longrightarrow>
            generate_playlist_vibe ai3 env reqbody = SendJson 400 (error_body ''Missing parameters.''))
       \<and> (\<not> truthy (opt_prop reqbody ''imageData'') \<or> \<not> truthy (opt_prop reqbody ''imageMimeType'')
          \<or> \<not> truthy (opt_prop reqbody ''mood'') \<or> \<not> truthy (opt_prop reqbody ''styles'') \<longrightarrow>
            generate_album_cover_prompt ai1 env reqbody = SendJson 400 (error_body ''Missing parameters.''))
       \<and> (\<not> truthy (opt_prop reqbody ''imageData'') \<or> \<not> truthy (opt_prop reqbody ''imageMimeType'')
          \<or> \<not> truthy (opt_prop reqbody ''prompt'') \<longrightarrow>
            edit_selfie_into_album_cover str ai2 env reqbody = SendJson 400 (error_body ''Missing parameters.''))
       \<and> \<not> truthy (JNum 0) \<and> \<not> truthy (JStr []) \<and> \<not> truthy JUndefined"
  using assms get_prop_opt_prop[of reqbody]
  by (auto simp: generate_album_cover_prompt_def edit_selfie_into_album_cover_def
        generate_playlist_vibe_def)

theorem falsy_fields_missing_witness:
  "genAI [''GEMINI_API_KEY'' \<mapsto> ''key-1''] \<noteq> None
 \<and> opt_prop (JObj [(''mood'', JStr ''calm''), (''albumPrompt'', JStr ''a sunset''), (''playlistLength'', JNum 0)])
      ''playlistLength'' = JNum 0
 \<and> generate_playlist_vibe (\<lambda>mood albumPrompt playlistLength. Some ''{}'') [''GEMINI_API_KEY'' \<mapsto> ''key-1'']
      (JObj [(''mood'', JStr ''calm''), (''albumPrompt'', JStr ''a sunset''), (''playlistLength'', JNum 0)])
     = SendJson 400 (error_body ''Missing parameters.'')"
  using falsy_fields_missing
          [of "[''GEMINI_API_KEY'' \<mapsto> ''key-1'']"
              "JObj [(''mood'', JStr ''calm''), (''albumPrompt'', JStr ''a sunset''), (''playlistLength'', JNum 0)]"
              "\<lambda>mood albumPrompt playlistLength. Some ''{}''"]
  by (simp add: genAI_def opt_prop_def)

section \<open>Facts about the \<open>/generate-playlist-vibe\<close> of \<open>src/unnamed/part_000\<close>\<close>

lemma fence_match_example:
  "fence_match (fence @ ''json'' @ [CHR 0x0A] @ ''{}'' @ [CHR 0x0A] @ fence) = Some ''{}''"
  by code_simp

lemma fence_match_untagged_example:
  "fence_match (fence @ ''[1, 2]  '' @ fence) = Some ''[1, 2]''"
  by code_simp

lemma fence_match_plain_example: "fence_match ''{}'' = None"
  by code_simp

lemma trim_example: "trim ('' {} '' @ [CHR 0x0A]) = ''{}''"
  by code_simp











text \<open>A text that is no JSON is answered 502.\<close>

lemma playlist_vibe_json_502_example:
  "generate_playlist_vibe_json
     (\<lambda>s. if s = ''{}'' then Some (JObj []) else None)
     (\<lambda>mood albumPrompt playlistLength. Text ''I cannot help with that.'')
     [''GEMINI_API_KEY'' \<mapsto> ''key-1'']
     (JObj [(''mood'', JStr ''calm''), (''albumPrompt'', JStr ''a sunset''), (''playlistLength'', JNum 5)])
   = SendJson 502 (error_body ''Model did not return valid JSON.'')"
  by code_simp

end
